theory Spec2Isabelle
  imports Complex_Main "HOL-Library.Multiset" "HOL-Library.Log_Nat"
begin

section \<open>Data model (src/services/mempool-api.ts, src/services/psbt-builder.ts)\<close>

text \<open>
  JavaScript numbers are IEEE 754 doubles. Those that carry satoshi amounts, counts and
  sizes are integers, on which the arithmetic of the source is exact below \<open>2^53\<close>:
  they are modelled as unbounded integers. The fee rate is the one number that may be
  fractional: it is a double, given here by its exact rational value, and the one
  operation on it, the product \<open>txSize * feeRate\<close>, is rounded as IEEE 754 rounds it
  (see \<open>jsMul\<close> below). \<open>NaN\<close>, the infinities and products beyond the range of the
  finite doubles are outside the model.
\<close>

record UtxoStatus =
  confirmed :: bool
  block_height :: "int option"
  block_hash :: "string option"
  block_time :: "int option"

record UTXO =
  txid :: string
  vout :: int
  "value" :: int
  status :: UtxoStatus

record CoinSelectionResult =
  utxos :: "UTXO list"
  totalValue :: int
  fee :: int
  change :: int

definition P2TR_INPUT_SIZE :: int where
  "P2TR_INPUT_SIZE = 58"

definition P2TR_OUTPUT_SIZE :: int where
  "P2TR_OUTPUT_SIZE = 43"

definition BASE_TX_SIZE :: int where
  "BASE_TX_SIZE = 10"

definition DUST_THRESHOLD :: int where
  "DUST_THRESHOLD = 546"

text \<open>
  Rounding to the nearest double, ties to even: a double has 53 significant bits, so
  the result is a multiple of \<open>2^e\<close>, where \<open>e\<close> is 52 below the binary exponent of the
  value and never below \<open>-1074\<close> (the subnormal doubles). \<open>floorLog2\<close> is the binary
  exponent of a positive rational. \<open>toDouble\<close> also reads a decimal literal: the double
  written \<open>0.1\<close> is \<open>toDouble (1 / 10)\<close>.
\<close>

definition floorLog2 :: "rat \<Rightarrow> int" where
  "floorLog2 x =
     (let k = bitlen (fst (quotient_of x)) - bitlen (snd (quotient_of x))
      in if 2 powi k \<le> x then k else k - 1)"

definition roundHalfEven :: "rat \<Rightarrow> int" where
  "roundHalfEven y =
     (let f = \<lfloor>y\<rfloor>; d = y - of_int f
      in if d < 1 / 2 then f else if 1 / 2 < d then f + 1 else if even f then f else f + 1)"

definition toDouble :: "rat \<Rightarrow> rat" where
  "toDouble x =
     (if x = 0 then 0
      else let e = max (floorLog2 \<bar>x\<bar> - 52) (- 1074);
               m = roundHalfEven (\<bar>x\<bar> / 2 powi e)
           in sgn x * of_int m * 2 powi e)"

text \<open>The JavaScript product \<open>a * b\<close> of two doubles: the exact product, rounded.\<close>

definition jsMul :: "rat \<Rightarrow> rat \<Rightarrow> rat" where
  "jsMul a b = toDouble (a * b)"

definition Math_ceil :: "rat \<Rightarrow> int" where
  "Math_ceil x = \<lceil>x\<rceil>"

definition estimateTxSize :: "int \<Rightarrow> bool \<Rightarrow> int" where
  "estimateTxSize inputCount includeChange =
     (let outputCount = (if includeChange then 2 else 1)
      in BASE_TX_SIZE + inputCount * P2TR_INPUT_SIZE + outputCount * P2TR_OUTPUT_SIZE)"

definition calculateFee :: "int \<Rightarrow> bool \<Rightarrow> rat \<Rightarrow> int" where
  "calculateFee inputCount includeChange feeRate =
     (let txSize = estimateTxSize inputCount includeChange
      in Math_ceil (jsMul (of_int txSize) feeRate))"

section \<open>Address classification (utils/bitcoin)\<close>

datatype Network = networks_bitcoin | networks_testnet

definition startsWith :: "string \<Rightarrow> string \<Rightarrow> bool" where
  "startsWith s p = (take (length p) s = p)"

definition isTaprootAddress :: "string \<Rightarrow> bool" where
  "isTaprootAddress address = (startsWith address ''bc1p'' \<or> startsWith address ''tb1p'')"

definition isTestnetAddress :: "string \<Rightarrow> bool" where
  "isTestnetAddress address = startsWith address ''tb1p''"

definition isValidBitcoinAddress :: "string \<Rightarrow> bool" where
  "isValidBitcoinAddress address =
     (if address = [] then False
      else if isTaprootAddress address then length address = 62
      else False)"

definition getNetwork :: "string \<Rightarrow> Network" where
  "getNetwork address = (if isTestnetAddress address then networks_testnet else networks_bitcoin)"

section \<open>Coin selection (selectUtxos)\<close>

text \<open>
  Everything the code throws: the four \<open>new Error(...)\<close> of the builder and the hook,
  and what an external collaborator (bitcoinjs-lib, the signer, the gateway) throws,
  an \<open>Error\<close> with its message or some other value.
\<close>

datatype error =
    OnlyTaprootSupported
  | SenderMustBeTaproot
  | AmountTooSmall
  | InsufficientFunds
  | ClientNotReady
  | ThrownError string
  | ThrownOther

text \<open>
  \<open>[...availableUtxos].sort((a, b) => b.value - a.value)\<close>: the sort of the copy is
  stable, so it is the insertion sort on the negated value.
\<close>

definition sortedUtxos :: "UTXO list \<Rightarrow> UTXO list" where
  "sortedUtxos availableUtxos = sort_key (\<lambda>u. - value u) availableUtxos"

text \<open>
  The \<open>for (const utxo of sortedUtxos)\<close> loop: the first argument is what is left to
  iterate, \<open>selectedUtxos\<close> and \<open>totalValue\<close> are the two loop variables.
\<close>

fun selectLoop ::
  "UTXO list \<Rightarrow> UTXO list \<Rightarrow> int \<Rightarrow> int \<Rightarrow> rat \<Rightarrow> CoinSelectionResult option" where
  "selectLoop [] selectedUtxos0 totalValue0 targetAmount feeRate = None"
| "selectLoop (utxo # rest) selectedUtxos0 totalValue0 targetAmount feeRate =
     (let selectedUtxos = selectedUtxos0 @ [utxo];
          totalValue = totalValue0 + value utxo;
          txSizeWithChange = estimateTxSize (int (length selectedUtxos)) True;
          feeWithChange = Math_ceil (jsMul (of_int txSizeWithChange) feeRate);
          txSizeNoChange = estimateTxSize (int (length selectedUtxos)) False;
          feeNoChange = Math_ceil (jsMul (of_int txSizeNoChange) feeRate)
      in if totalValue \<ge> targetAmount + feeWithChange then
           (let change = totalValue - targetAmount - feeWithChange
            in if change < DUST_THRESHOLD then
                 (if totalValue \<ge> targetAmount + feeNoChange then
                    Some \<lparr>utxos = selectedUtxos, totalValue = totalValue,
                          fee = totalValue - targetAmount, change = 0\<rparr>
                  else selectLoop rest selectedUtxos totalValue targetAmount feeRate)
               else
                 Some \<lparr>utxos = selectedUtxos, totalValue = totalValue,
                       fee = feeWithChange, change = change\<rparr>)
         else selectLoop rest selectedUtxos totalValue targetAmount feeRate)"

definition selectUtxos ::
  "UTXO list \<Rightarrow> int \<Rightarrow> rat \<Rightarrow> string \<Rightarrow> string
    \<Rightarrow> error + CoinSelectionResult option" where
  "selectUtxos availableUtxos targetAmount feeRate senderAddress recipientAddress =
     (if \<not> isTaprootAddress senderAddress then Inl OnlyTaprootSupported
      else Inr (selectLoop (sortedUtxos availableUtxos) [] 0 targetAmount feeRate))"

section \<open>The acceptance condition of the selector, as the specification words it\<close>

text \<open>
  The specification speaks of prefixes of the sorted list, of the running total of a
  prefix and of the condition under which the selector accepts after adding the
  \<open>k\<close>-th UTXO (step 5 of the algorithm): \<open>total \<ge> target + feeWithChange\<close>, and
  either the change is at least the dust threshold or the no-change fallback
  \<open>total \<ge> target + feeNoChange\<close> holds. \<open>resultAt\<close> is the selection that step 5
  prescribes for an accepted prefix.
\<close>

definition prefixTotal :: "UTXO list \<Rightarrow> nat \<Rightarrow> int" where
  "prefixTotal xs k = sum_list (map value (take k xs))"

definition accepted :: "UTXO list \<Rightarrow> int \<Rightarrow> rat \<Rightarrow> nat \<Rightarrow> bool" where
  "accepted xs targetAmount feeRate k =
     (let total = prefixTotal xs k;
          feeWithChange = calculateFee (int k) True feeRate;
          feeNoChange = calculateFee (int k) False feeRate
      in total \<ge> targetAmount + feeWithChange \<and>
         (total - targetAmount - feeWithChange \<ge> DUST_THRESHOLD \<or>
          total \<ge> targetAmount + feeNoChange))"

definition resultAt :: "UTXO list \<Rightarrow> int \<Rightarrow> rat \<Rightarrow> nat \<Rightarrow> CoinSelectionResult" where
  "resultAt xs targetAmount feeRate k =
     (let total = prefixTotal xs k;
          feeWithChange = calculateFee (int k) True feeRate
      in if total - targetAmount - feeWithChange < DUST_THRESHOLD
         then \<lparr>utxos = take k xs, totalValue = total, fee = total - targetAmount, change = 0\<rparr>
         else \<lparr>utxos = take k xs, totalValue = total, fee = feeWithChange,
                change = total - targetAmount - feeWithChange\<rparr>)"

section \<open>Concrete inputs\<close>

definition mkUtxo :: "string \<Rightarrow> int \<Rightarrow> bool \<Rightarrow> UTXO" where
  "mkUtxo t v c =
     \<lparr>txid = t, vout = 0, value = v,
      status = \<lparr>confirmed = c, block_height = None, block_hash = None, block_time = None\<rparr>\<rparr>"

section \<open>selectUtxos on a store of arrays\<close>

text \<open>
  JavaScript arrays are objects that are passed by reference and changed in place by
  \<open>sort\<close> and \<open>push\<close>. Here the arrays live in a store; \<open>selectUtxos\<close> receives the
  reference of the caller's array and returns the store it leaves behind.
\<close>

record Store =
  arrays :: "nat \<Rightarrow> UTXO list option"
  fresh :: nat

definition readArray :: "Store \<Rightarrow> nat \<Rightarrow> UTXO list" where
  "readArray st r = (case arrays st r of None \<Rightarrow> [] | Some xs \<Rightarrow> xs)"

definition newArray :: "Store \<Rightarrow> UTXO list \<Rightarrow> nat \<times> Store" where
  "newArray st xs = (fresh st, st\<lparr>arrays := (arrays st)(fresh st \<mapsto> xs), fresh := Suc (fresh st)\<rparr>)"

definition Array_sort :: "Store \<Rightarrow> nat \<Rightarrow> Store" where
  "Array_sort st r = st\<lparr>arrays := (arrays st)(r \<mapsto> sort_key (\<lambda>u. - value u) (readArray st r))\<rparr>"

definition Array_push :: "Store \<Rightarrow> nat \<Rightarrow> UTXO \<Rightarrow> Store" where
  "Array_push st r u = st\<lparr>arrays := (arrays st)(r \<mapsto> readArray st r @ [u])\<rparr>"

record CoinSelectionRef =
  utxosRef :: nat
  totalValueOf :: int
  feeOf :: int
  changeOf :: int

text \<open>
  The loop again, now pushing onto the array \<open>selectedUtxos\<close> in the store. The
  iteration is over the elements of \<open>sortedUtxos\<close>, which the body never writes.
\<close>

fun selectLoop_store ::
  "UTXO list \<Rightarrow> nat \<Rightarrow> int \<Rightarrow> int \<Rightarrow> rat \<Rightarrow> Store \<Rightarrow> Store \<times> CoinSelectionRef option" where
  "selectLoop_store [] selectedRef totalValue0 targetAmount rate st = (st, None)"
| "selectLoop_store (utxo # rest) selectedRef totalValue0 targetAmount rate st0 =
     (let st = Array_push st0 selectedRef utxo;
          totalValue = totalValue0 + value utxo;
          txSizeWithChange = estimateTxSize (int (length (readArray st selectedRef))) True;
          feeWithChange = Math_ceil (jsMul (of_int txSizeWithChange) rate);
          txSizeNoChange = estimateTxSize (int (length (readArray st selectedRef))) False;
          feeNoChange = Math_ceil (jsMul (of_int txSizeNoChange) rate)
      in if totalValue \<ge> targetAmount + feeWithChange then
           (let change = totalValue - targetAmount - feeWithChange
            in if change < DUST_THRESHOLD then
                 (if totalValue \<ge> targetAmount + feeNoChange then
                    (st, Some \<lparr>utxosRef = selectedRef, totalValueOf = totalValue,
                               feeOf = totalValue - targetAmount, changeOf = 0\<rparr>)
                  else selectLoop_store rest selectedRef totalValue targetAmount rate st)
               else
                 (st, Some \<lparr>utxosRef = selectedRef, totalValueOf = totalValue,
                            feeOf = feeWithChange, changeOf = change\<rparr>))
         else selectLoop_store rest selectedRef totalValue targetAmount rate st)"

definition selectUtxos_store ::
  "Store \<Rightarrow> nat \<Rightarrow> int \<Rightarrow> rat \<Rightarrow> string \<Rightarrow> string
     \<Rightarrow> Store \<times> (error + CoinSelectionRef option)" where
  "selectUtxos_store st availableRef targetAmount rate sender recipient =
     (if \<not> isTaprootAddress sender then (st, Inl OnlyTaprootSupported)
      else
        let (sortedRef, st1) = newArray st (readArray st availableRef);
            st2 = Array_sort st1 sortedRef;
            (selectedRef, st3) = newArray st2 []
        in (case selectLoop_store (readArray st3 sortedRef) selectedRef 0 targetAmount rate st3 of
              (st', r) \<Rightarrow> (st', Inr r)))"

text \<open>The selection a stored result denotes once the caller reads its array.\<close>

definition loadSelection :: "Store \<Rightarrow> CoinSelectionRef \<Rightarrow> CoinSelectionResult" where
  "loadSelection st r =
     \<lparr>CoinSelectionResult.utxos = readArray st (utxosRef r), totalValue = totalValueOf r,
      CoinSelectionResult.fee = feeOf r, CoinSelectionResult.change = changeOf r\<rparr>"

section \<open>Building the PSBT (buildPsbt, finalizePsbt)\<close>

record BuildPsbtParams =
  utxos :: "UTXO list"
  senderAddress :: string
  recipientAddress :: string
  amount :: int
  feeRate :: rat

record PsbtResult =
  psbtHex :: string
  psbtBase64 :: string
  fee :: int
  change :: int
  totalInput :: int
  inputCount :: int
  outputCount :: int

record PsbtInput =
  hash :: string
  index :: int
  witnessUtxo_script :: string
  witnessUtxo_value :: int

text \<open>
  bitcoinjs-lib is not part of the repository: the operations of it that the builder
  calls are parameters. \<open>'p\<close> is the library's \<open>Psbt\<close> object (its mutation by
  \<open>addInput\<close> and \<open>addOutput\<close> is state passing), \<open>'t\<close> its \<open>Transaction\<close>; an
  operation that can throw returns a sum.
\<close>

record ('p, 't) bitcoinjs =
  address_toOutputScript :: "string \<Rightarrow> Network \<Rightarrow> error + string"
  Psbt_new :: "Network \<Rightarrow> 'p"
  Psbt_addInput :: "'p \<Rightarrow> PsbtInput \<Rightarrow> error + 'p"
  Psbt_addOutput :: "'p \<Rightarrow> string \<Rightarrow> int \<Rightarrow> error + 'p"
  Psbt_toHex :: "'p \<Rightarrow> string"
  Psbt_toBase64 :: "'p \<Rightarrow> string"
  Psbt_fromHex :: "string \<Rightarrow> error + 'p"
  Psbt_finalizeAllInputs :: "'p \<Rightarrow> error + 'p"
  Psbt_extractTransaction :: "'p \<Rightarrow> error + 't"
  Transaction_toHex :: "'t \<Rightarrow> string"

text \<open>The \<open>for (const utxo of selection.utxos)\<close> loop that adds the inputs.\<close>

fun addInputs ::
  "('p, 't) bitcoinjs \<Rightarrow> string \<Rightarrow> Network \<Rightarrow> 'p \<Rightarrow> UTXO list \<Rightarrow> error + 'p" where
  "addInputs lib sender network psbt [] = Inr psbt"
| "addInputs lib sender network psbt (utxo # rest) =
     (case address_toOutputScript lib sender network of
        Inl e \<Rightarrow> Inl e
      | Inr outputScript \<Rightarrow>
          (case Psbt_addInput lib psbt
                  \<lparr>hash = txid utxo, index = vout utxo,
                   witnessUtxo_script = outputScript, witnessUtxo_value = value utxo\<rparr> of
             Inl e \<Rightarrow> Inl e
           | Inr psbt' \<Rightarrow> addInputs lib sender network psbt' rest))"

text \<open>
  The calls \<open>buildPsbt\<close> makes, in the order it makes them, are recorded beside its
  outcome: what it reads and runs before it returns or throws.
\<close>

datatype buildCall =
    Call_getNetwork
  | Read_utxos
  | Call_selectUtxos
  | New_Psbt

definition buildPsbt ::
  "('p, 't) bitcoinjs \<Rightarrow> BuildPsbtParams \<Rightarrow> buildCall list \<times> (error + PsbtResult)" where
  "buildPsbt lib params =
     (if \<not> isTaprootAddress (senderAddress params) then ([], Inl SenderMustBeTaproot)
      else if amount params < DUST_THRESHOLD then ([], Inl AmountTooSmall)
      else
        let network = getNetwork (senderAddress params);
            confirmedUtxos = filter (\<lambda>u. confirmed (status u)) (utxos params)
        in (case selectUtxos confirmedUtxos (amount params) (feeRate params)
                   (senderAddress params) (recipientAddress params) of
              Inl e \<Rightarrow> ([Call_getNetwork, Read_utxos, Call_selectUtxos], Inl e)
            | Inr None \<Rightarrow> ([Call_getNetwork, Read_utxos, Call_selectUtxos], Inl InsufficientFunds)
            | Inr (Some selection) \<Rightarrow>
                ([Call_getNetwork, Read_utxos, Call_selectUtxos, New_Psbt],
                 (case addInputs lib (senderAddress params) network (Psbt_new lib network)
                         (CoinSelectionResult.utxos selection) of
                    Inl e \<Rightarrow> Inl e
                  | Inr psbt1 \<Rightarrow>
                      (case Psbt_addOutput lib psbt1 (recipientAddress params) (amount params) of
                         Inl e \<Rightarrow> Inl e
                       | Inr psbt2 \<Rightarrow>
                           (case (if CoinSelectionResult.change selection > 0
                                  then Psbt_addOutput lib psbt2 (senderAddress params)
                                         (CoinSelectionResult.change selection)
                                  else Inr psbt2) of
                              Inl e \<Rightarrow> Inl e
                            | Inr psbt \<Rightarrow>
                                Inr \<lparr>psbtHex = Psbt_toHex lib psbt,
                                     psbtBase64 = Psbt_toBase64 lib psbt,
                                     fee = CoinSelectionResult.fee selection,
                                     change = CoinSelectionResult.change selection,
                                     totalInput = totalValue selection,
                                     inputCount = int (length (CoinSelectionResult.utxos selection)),
                                     outputCount =
                                       (if CoinSelectionResult.change selection > 0 then 2 else 1)\<rparr>))))))"

definition finalizePsbt :: "('p, 't) bitcoinjs \<Rightarrow> string \<Rightarrow> error + string" where
  "finalizePsbt lib signedPsbtHex =
     (case Psbt_fromHex lib signedPsbtHex of
        Inl e \<Rightarrow> Inl e
      | Inr psbt \<Rightarrow>
          (case Psbt_finalizeAllInputs lib psbt of
             Inl e \<Rightarrow> Inl e
           | Inr psbt' \<Rightarrow>
               (case Psbt_extractTransaction lib psbt' of
                  Inl e \<Rightarrow> Inl e
                | Inr tx \<Rightarrow> Inr (Transaction_toHex lib tx))))"

section \<open>The transaction hook (useBitcoinTransaction)\<close>

datatype BitcoinNetwork = mainnet | testnet | testnet4 | signet

datatype MempoolApi = MempoolApi BitcoinNetwork

definition mainnetApi :: MempoolApi where
  "mainnetApi = MempoolApi mainnet"

definition signetApi :: MempoolApi where
  "signetApi = MempoolApi signet"

definition getApiForAddress :: "string \<Rightarrow> MempoolApi" where
  "getApiForAddress address = (if isTestnetAddress address then signetApi else mainnetApi)"

record FeeEstimate =
  fee :: int
  change :: int

text \<open>\<open>estimateFee\<close> has no \<open>try\<close>: what \<open>selectUtxos\<close> throws leaves it as it is.\<close>

definition estimateFee ::
  "UTXO list \<Rightarrow> string \<Rightarrow> string \<Rightarrow> int \<Rightarrow> rat \<Rightarrow> error + FeeEstimate option" where
  "estimateFee utxos0 fromAddress0 toAddress0 amount0 feeRate0 =
     (case selectUtxos (filter (\<lambda>u. confirmed (status u)) utxos0) amount0 feeRate0
             fromAddress0 toAddress0 of
        Inl e \<Rightarrow> Inl e
      | Inr None \<Rightarrow> Inr None
      | Inr (Some selection) \<Rightarrow>
          Inr (Some \<lparr>fee = CoinSelectionResult.fee selection,
                     change = CoinSelectionResult.change selection\<rparr>))"

record SendBitcoinParams =
  fromAddress :: string
  toAddress :: string
  amount :: int
  feeRate :: rat
  utxos :: "UTXO list"

record SendBitcoinResult =
  txid :: string
  rawTx :: string
  fee :: int
  change :: int

datatype step = Idle | Building | Signing | Broadcasting | Complete | Error

record TransactionState =
  step :: step
  error :: "string option"
  psbtResult :: "PsbtResult option"
  txResult :: "SendBitcoinResult option"

text \<open>
  The collaborators of the hook: the readiness of the signing client, its
  \<open>signTransaction\<close> (unsigned transaction, account address), and
  \<open>broadcastTransaction\<close> of a gateway instance.
\<close>

record ('p, 't) collaborators =
  isReady :: bool
  signTransaction :: "string \<Rightarrow> string \<Rightarrow> error + string"
  broadcastTransaction :: "MempoolApi \<Rightarrow> string \<Rightarrow> error + string"
  bitcoinjs :: "('p, 't) bitcoinjs"

text \<open>What the hook does that can be observed from outside, in order.\<close>

datatype effect =
    SetTxState TransactionState
  | SignTransaction string string
  | ConsoleError
  | BroadcastTransaction MempoolApi string

text \<open>\<open>error instanceof Error ? error.message : fallback\<close>\<close>

fun errorMessage :: "string \<Rightarrow> error \<Rightarrow> string" where
  "errorMessage fallback OnlyTaprootSupported = ''Only Taproot addresses are supported''"
| "errorMessage fallback SenderMustBeTaproot = ''Sender must be a Taproot address (bc1p.../tb1p...)''"
| "errorMessage fallback AmountTooSmall =
     ''Amount too small. Minimum is 546 satoshis (0.00000546 BTC)''"
| "errorMessage fallback InsufficientFunds = ''Insufficient funds''"
| "errorMessage fallback ClientNotReady = ''Client not ready''"
| "errorMessage fallback (ThrownError msg) = msg"
| "errorMessage fallback ThrownOther = fallback"

definition signPsbt ::
  "('p, 't) collaborators \<Rightarrow> string \<Rightarrow> string \<Rightarrow> effect list \<times> (error + string)" where
  "signPsbt env psbtHex0 address =
     (if \<not> isReady env then ([], Inl ClientNotReady)
      else if \<not> isTaprootAddress address then ([], Inl OnlyTaprootSupported)
      else
        (case signTransaction env psbtHex0 address of
           Inl e \<Rightarrow> ([SignTransaction psbtHex0 address, ConsoleError], Inl e)
         | Inr signedPsbt \<Rightarrow> ([SignTransaction psbtHex0 address], Inr signedPsbt)))"

definition txStateOf ::
  "step \<Rightarrow> string option \<Rightarrow> PsbtResult option \<Rightarrow> SendBitcoinResult option \<Rightarrow> TransactionState" where
  "txStateOf s e p r = \<lparr>step = s, error = e, psbtResult = p, txResult = r\<rparr>"

definition caught :: "error \<Rightarrow> effect" where
  "caught e = SetTxState (txStateOf Error (Some (errorMessage ''Transaction failed'' e)) None None)"

definition sendBitcoin ::
  "('p, 't) collaborators \<Rightarrow> SendBitcoinParams \<Rightarrow> effect list \<times> (error + SendBitcoinResult)" where
  "sendBitcoin env params =
     (if \<not> isReady env then ([], Inl ClientNotReady)
      else if \<not> isTaprootAddress (fromAddress params) then ([], Inl OnlyTaprootSupported)
      else
        let s1 = [SetTxState (txStateOf Building None None None)] in
        (case snd (buildPsbt (bitcoinjs env)
                     \<lparr>BuildPsbtParams.utxos = utxos params,
                      senderAddress = fromAddress params,
                      recipientAddress = toAddress params,
                      BuildPsbtParams.amount = amount params,
                      BuildPsbtParams.feeRate = feeRate params\<rparr>) of
           Inl e \<Rightarrow> (s1 @ [caught e], Inl e)
         | Inr built \<Rightarrow>
             let s2 = s1 @ [SetTxState (txStateOf Signing None (Some built) None)] in
             (case signPsbt env (psbtHex built) (fromAddress params) of
                (sigEffects, Inl e) \<Rightarrow> (s2 @ sigEffects @ [caught e], Inl e)
              | (sigEffects, Inr signature) \<Rightarrow>
                  let s3 = s2 @ sigEffects
                             @ [SetTxState (txStateOf Broadcasting None (Some built) None)] in
                  (case finalizePsbt (bitcoinjs env) signature of
                     Inl e \<Rightarrow> (s3 @ [caught e], Inl e)
                   | Inr rawTx0 \<Rightarrow>
                       let api = getApiForAddress (fromAddress params) in
                       (case broadcastTransaction env api rawTx0 of
                          Inl e \<Rightarrow> (s3 @ [BroadcastTransaction api rawTx0, caught e], Inl e)
                        | Inr txid0 \<Rightarrow>
                            let result = \<lparr>txid = txid0, rawTx = rawTx0,
                                           fee = PsbtResult.fee built,
                                           change = PsbtResult.change built\<rparr>
                            in (s3 @ [BroadcastTransaction api rawTx0,
                                      SetTxState (txStateOf Complete None (Some built) (Some result))],
                                Inr result))))))"

section \<open>Observing a run of the hook\<close>

text \<open>
  The broadcast calls of a run, in order, and the transaction state a run leaves
  behind (the argument of the last \<open>setTxState\<close>).
\<close>

fun broadcastCalls :: "effect list \<Rightarrow> (MempoolApi \<times> string) list" where
  "broadcastCalls [] = []"
| "broadcastCalls (BroadcastTransaction api raw # es) = (api, raw) # broadcastCalls es"
| "broadcastCalls (_ # es) = broadcastCalls es"

fun txStateAfter :: "TransactionState \<Rightarrow> effect list \<Rightarrow> TransactionState" where
  "txStateAfter s [] = s"
| "txStateAfter s (SetTxState s' # es) = txStateAfter s' es"
| "txStateAfter s (_ # es) = txStateAfter s es"

section \<open>Collaborators for concrete runs\<close>

text \<open>
  A small in-memory stand-in for bitcoinjs-lib, the signer and the gateway, on which
  the model is run at concrete inputs; \<open>finalizes\<close> says whether the signed template
  carries the witness data \<open>finalizeAllInputs\<close> needs.
\<close>

definition toyLib :: "bool \<Rightarrow> (PsbtInput list \<times> (string \<times> int) list, string) bitcoinjs" where
  "toyLib finalizes =
     \<lparr>address_toOutputScript = (\<lambda>a n. Inr (''5120'' @ a)),
      Psbt_new = (\<lambda>n. ([], [])),
      Psbt_addInput = (\<lambda>p i. Inr (fst p @ [i], snd p)),
      Psbt_addOutput = (\<lambda>p a v. Inr (fst p, snd p @ [(a, v)])),
      Psbt_toHex = (\<lambda>p. ''70736274ff''),
      Psbt_toBase64 = (\<lambda>p. ''cHNidP8=''),
      Psbt_fromHex = (\<lambda>h. if h = ''70736274ff01'' then Inr ([], [])
                          else Inl (ThrownError ''Format Error: Invalid Magic Number'')),
      Psbt_finalizeAllInputs = (\<lambda>p. if finalizes then Inr p
                                     else Inl (ThrownError ''Can not finalize input #0'')),
      Psbt_extractTransaction = (\<lambda>p. Inr ''0200000001''),
      Transaction_toHex = (\<lambda>t. t)\<rparr>"

definition toyEnv :: "bool \<Rightarrow> (PsbtInput list \<times> (string \<times> int) list, string) collaborators" where
  "toyEnv finalizes =
     \<lparr>isReady = True,
      signTransaction = (\<lambda>tx a. Inr ''70736274ff01''),
      broadcastTransaction = (\<lambda>api raw. Inr ''txid''),
      bitcoinjs = toyLib finalizes\<rparr>"

definition toySend :: SendBitcoinParams where
  "toySend = \<lparr>fromAddress = ''bc1psender'', toAddress = ''bc1precipient'', amount = 80000, feeRate = 5,
       utxos = [mkUtxo ''a'' 50000 True, mkUtxo ''b'' 100000 True]\<rparr>"

section \<open>Properties of the rounded product\<close>

text \<open>
  Below \<open>2^53\<close> every integer is a double, so rounding a value to the nearest double
  never crosses an integer: the result lies between the floor and the ceiling of the
  value, an integer is left as it is, and the ceiling of the rounded value is the exact
  ceiling or one less.
\<close>

lemma roundHalfEven_bounds: "\<lfloor>y\<rfloor> \<le> roundHalfEven y \<and> roundHalfEven y \<le> \<lceil>y\<rceil>"
proof -
  have "\<lfloor>y\<rfloor> \<le> \<lceil>y\<rceil>" by (rule floor_le_ceiling)
  moreover have "\<lfloor>y\<rfloor> + 1 \<le> \<lceil>y\<rceil>" if "0 < y - of_int \<lfloor>y\<rfloor>"
  proof -
    from that have "of_int \<lfloor>y\<rfloor> < y" by simp
    then have "\<lfloor>y\<rfloor> < \<lceil>y\<rceil>" by (simp add: less_ceiling_iff)
    then show ?thesis by simp
  qed
  ultimately show ?thesis
    by (auto simp: roundHalfEven_def Let_def)
qed

lemma floorLog2_lower:
  assumes "0 < a"
  shows "2 powi (floorLog2 a) \<le> a"
proof -
  obtain p q where pq: "quotient_of a = (p, q)" by (cases "quotient_of a")
  have q: "0 < q" using pq by (rule quotient_of_denom_pos)
  have a: "a = of_int p / of_int q" using pq by (rule quotient_of_div)
  have p: "0 < p" using assms q unfolding a by (simp add: zero_less_divide_iff)
  let ?k = "bitlen p - bitlen q"
  have bp: "1 \<le> bitlen p" and bq: "1 \<le> bitlen q"
    using p q bitlen_eq_zero_iff[of p] bitlen_eq_zero_iff[of q] bitlen_nonneg[of p] bitlen_nonneg[of q]
    by linarith+
  have lo: "(2::rat) powi (bitlen p - 1) \<le> of_int p"
  proof -
    have "(2::int) ^ nat (bitlen p - 1) \<le> p" using bitlen_bounds[OF p] by simp
    then have "rat_of_int (2 ^ nat (bitlen p - 1)) \<le> of_int p" by (simp only: of_int_le_iff)
    then show ?thesis using bp by (simp add: power_int_def)
  qed
  have hi: "of_int q \<le> (2::rat) powi (bitlen q)"
  proof -
    have "q < (2::int) ^ nat (bitlen q)" using bitlen_bounds[OF q] by simp
    then have "rat_of_int q < of_int (2 ^ nat (bitlen q))" by (simp only: of_int_less_iff)
    then show ?thesis using bq by (simp add: power_int_def)
  qed
  have "(2::rat) powi (?k - 1) = 2 powi (bitlen p - 1) / 2 powi (bitlen q)"
    by (simp add: power_int_diff)
  also have "\<dots> \<le> of_int p / 2 powi (bitlen q)"
    using lo by (simp add: divide_right_mono)
  also have "\<dots> \<le> of_int p / of_int q"
    using hi p q by (intro divide_left_mono) (simp_all add: zero_less_power_int)
  finally have km1: "(2::rat) powi (?k - 1) \<le> a" unfolding a .
  show ?thesis
    using km1 by (simp add: floorLog2_def pq Let_def)
qed

lemma floorLog2_le:
  assumes "0 < a" and "a < 2 powi n"
  shows "floorLog2 a < n"
proof (rule ccontr)
  assume "\<not> floorLog2 a < n"
  then have "n \<le> floorLog2 a" by simp
  then have "(2::rat) powi n \<le> 2 powi (floorLog2 a)"
    by (intro power_int_increasing) simp_all
  with floorLog2_lower[OF assms(1)] assms(2) show False by simp
qed

lemma toDouble_pos_bounds:
  assumes "0 < a" and "a < 2 ^ 53"
  shows "of_int \<lfloor>a\<rfloor> \<le> toDouble a \<and> toDouble a \<le> of_int \<lceil>a\<rceil>"
proof -
  define e where "e = max (floorLog2 a - 52) (- 1074)"
  define j where "j = nat (- e)"
  define y where "y = a / 2 powi e"
  define m where "m = roundHalfEven y"
  have "a < 2 powi 53" using assms(2) by (simp add: power_int_def)
  then have "floorLog2 a < 53" using assms(1) by (intro floorLog2_le)
  then have e0: "e \<le> 0" by (simp add: e_def)
  then have pe: "(2::rat) powi e = 1 / 2 ^ j"
    by (cases "e = 0") (simp_all add: power_int_def j_def inverse_eq_divide power_one_over)
  have y: "y = a * 2 ^ j" by (simp add: y_def pe)
  have td: "toDouble a = of_int m / 2 ^ j"
    using assms(1) by (simp add: toDouble_def Let_def m_def y_def e_def[symmetric] pe)
  have "of_int (\<lfloor>a\<rfloor> * 2 ^ j) \<le> y"
    unfolding y by (simp add: mult_right_mono)
  then have "\<lfloor>a\<rfloor> * 2 ^ j \<le> \<lfloor>y\<rfloor>" by (simp only: le_floor_iff)
  then have lo: "\<lfloor>a\<rfloor> * 2 ^ j \<le> m" using roundHalfEven_bounds[of y] by (simp add: m_def)
  have "y \<le> of_int (\<lceil>a\<rceil> * 2 ^ j)"
    unfolding y by (simp add: mult_right_mono)
  then have "\<lceil>y\<rceil> \<le> \<lceil>a\<rceil> * 2 ^ j" by (simp only: ceiling_le_iff)
  then have hi: "m \<le> \<lceil>a\<rceil> * 2 ^ j" using roundHalfEven_bounds[of y] by (simp add: m_def)
  from lo have "rat_of_int (\<lfloor>a\<rfloor> * 2 ^ j) \<le> of_int m" by (simp only: of_int_le_iff)
  then have 1: "of_int \<lfloor>a\<rfloor> \<le> of_int m / (2::rat) ^ j" by (simp add: pos_le_divide_eq)
  from hi have "rat_of_int m \<le> of_int (\<lceil>a\<rceil> * 2 ^ j)" by (simp only: of_int_le_iff)
  then have 2: "of_int m / (2::rat) ^ j \<le> of_int \<lceil>a\<rceil>" by (simp add: pos_divide_le_eq)
  from 1 2 show ?thesis unfolding td by simp
qed

lemma toDouble_minus: "toDouble (- x) = - toDouble x"
  by (simp add: toDouble_def Let_def)

lemma toDouble_bounds:
  assumes "\<bar>x\<bar> < 2 ^ 53"
  shows "of_int \<lfloor>x\<rfloor> \<le> toDouble x \<and> toDouble x \<le> of_int \<lceil>x\<rceil>"
proof -
  consider "x = 0" | "0 < x" | "x < 0" by linarith
  then show ?thesis
  proof cases
    case 1
    then show ?thesis by (simp add: toDouble_def)
  next
    case 2
    then show ?thesis using assms toDouble_pos_bounds[of x] by simp
  next
    case 3
    then have "0 < - x" "- x < 2 ^ 53" using assms by simp_all
    from toDouble_pos_bounds[OF this] show ?thesis
      by (simp add: toDouble_minus ceiling_minus floor_minus)
  qed
qed

lemma toDouble_of_int:
  assumes "\<bar>k\<bar> < 2 ^ 53"
  shows "toDouble (of_int k) = of_int k"
proof -
  have "\<bar>rat_of_int k\<bar> < 2 ^ 53"
  proof -
    have "rat_of_int \<bar>k\<bar> < of_int (2 ^ 53)" using assms by (simp only: of_int_less_iff)
    then show ?thesis by simp
  qed
  from toDouble_bounds[OF this] show ?thesis by simp
qed

lemma ceiling_toDouble:
  assumes "\<bar>x\<bar> < 2 ^ 53"
  shows "\<lceil>x\<rceil> - 1 \<le> \<lceil>toDouble x\<rceil> \<and> \<lceil>toDouble x\<rceil> \<le> \<lceil>x\<rceil>"
proof -
  from toDouble_bounds[OF assms] have lo: "of_int \<lfloor>x\<rfloor> \<le> toDouble x" and hi: "toDouble x \<le> of_int \<lceil>x\<rceil>"
    by simp_all
  from hi have "\<lceil>toDouble x\<rceil> \<le> \<lceil>x\<rceil>" by (simp add: ceiling_le_iff)
  moreover from lo have "\<lfloor>x\<rfloor> \<le> \<lceil>toDouble x\<rceil>" by (simp add: le_ceiling_iff) 
  moreover have "\<lceil>x\<rceil> - 1 \<le> \<lfloor>x\<rfloor>" by (simp add: ceiling_altdef)
  ultimately show ?thesis by linarith
qed

lemma toDouble_nonneg:
  assumes "0 \<le> x"
  shows "0 \<le> toDouble x"
proof (cases "x = 0")
  case True
  then show ?thesis by (simp add: toDouble_def)
next
  case False
  let ?e = "max (floorLog2 x - 52) (- 1074)"
  have "0 \<le> x / 2 powi ?e" using assms by (simp add: zero_le_power_int)
  then have "0 \<le> \<lfloor>x / 2 powi ?e\<rfloor>" by simp
  with roundHalfEven_bounds[of "x / 2 powi ?e"] have "0 \<le> roundHalfEven (x / 2 powi ?e)"
    by linarith
  then have "0 \<le> rat_of_int (roundHalfEven (x / 2 powi ?e)) * 2 powi ?e"
    by (simp add: zero_le_power_int)
  with assms False show ?thesis
    by (simp add: toDouble_def Let_def)
qed

text \<open>
  \<open>floorLog2\<close> is the binary exponent, and \<open>toDouble\<close> is a nearest value on the grid
  of the doubles around its argument: it is off by at most half the grid step.
\<close>

lemma floorLog2_upper:
  assumes "0 < a"
  shows "a < 2 powi (floorLog2 a + 1)"
proof -
  obtain p q where pq: "quotient_of a = (p, q)" by (cases "quotient_of a")
  have q: "0 < q" using pq by (rule quotient_of_denom_pos)
  have a: "a = of_int p / of_int q" using pq by (rule quotient_of_div)
  have p: "0 < p" using assms q unfolding a by (simp add: zero_less_divide_iff)
  let ?k = "bitlen p - bitlen q"
  have bp: "1 \<le> bitlen p" and bq: "1 \<le> bitlen q"
    using p q bitlen_eq_zero_iff[of p] bitlen_eq_zero_iff[of q] bitlen_nonneg[of p] bitlen_nonneg[of q]
    by linarith+
  have hi: "of_int p < (2::rat) powi (bitlen p)"
  proof -
    have "p < (2::int) ^ nat (bitlen p)" using bitlen_bounds[OF p] by simp
    then have "rat_of_int p < of_int (2 ^ nat (bitlen p))" by (simp only: of_int_less_iff)
    then show ?thesis using bp by (simp add: power_int_def)
  qed
  have lo: "(2::rat) powi (bitlen q - 1) \<le> of_int q"
  proof -
    have "(2::int) ^ nat (bitlen q - 1) \<le> q" using bitlen_bounds[OF q] by simp
    then have "rat_of_int (2 ^ nat (bitlen q - 1)) \<le> of_int q" by (simp only: of_int_le_iff)
    then show ?thesis using bq by (simp add: power_int_def)
  qed
  have "of_int p / of_int q \<le> of_int p / (2::rat) powi (bitlen q - 1)"
    using lo p q by (intro divide_left_mono) (simp_all add: zero_less_power_int)
  also have "\<dots> < 2 powi (bitlen p) / 2 powi (bitlen q - 1)"
    using hi by (simp add: divide_strict_right_mono zero_less_power_int)
  also have "\<dots> = 2 powi (bitlen p - (bitlen q - 1))"
    by (rule power_int_diff[symmetric]) simp
  also have "bitlen p - (bitlen q - 1) = ?k + 1" by simp
  finally have kp1: "a < 2 powi (?k + 1)" unfolding a .
  show ?thesis
  proof (cases "2 powi ?k \<le> a")
    case True
    then show ?thesis using kp1 by (simp add: floorLog2_def pq Let_def)
  next
    case False
    then show ?thesis by (simp add: floorLog2_def pq Let_def)
  qed
qed

lemma roundHalfEven_nearest: "\<bar>of_int (roundHalfEven y) - y\<bar> \<le> 1 / 2"
proof -
  have "of_int \<lfloor>y\<rfloor> \<le> y" "y < of_int \<lfloor>y\<rfloor> + 1" by linarith+
  then show ?thesis
    by (auto simp: roundHalfEven_def Let_def abs_le_iff)
qed

lemma toDouble_nearest:
  assumes "x \<noteq> 0"
  shows "\<bar>toDouble x - x\<bar> \<le> 2 powi (max (floorLog2 \<bar>x\<bar> - 52) (- 1074)) / 2"
proof -
  define P :: rat where "P = 2 powi (max (floorLog2 \<bar>x\<bar> - 52) (- 1074))"
  define m where "m = roundHalfEven (\<bar>x\<bar> / P)"
  have pos: "0 < P" unfolding P_def by (rule zero_less_power_int) simp
  have half: "\<bar>of_int m - \<bar>x\<bar> / P\<bar> \<le> 1 / 2"
    unfolding m_def by (rule roundHalfEven_nearest)
  have "\<bar>of_int m * P - \<bar>x\<bar>\<bar> = \<bar>(of_int m - \<bar>x\<bar> / P) * P\<bar>"
    using pos by (simp add: left_diff_distrib)
  also have "\<dots> = \<bar>of_int m - \<bar>x\<bar> / P\<bar> * P"
    using pos by (simp add: abs_mult)
  also have "\<dots> \<le> 1 / 2 * P"
    using half pos by (intro mult_right_mono) simp_all
  finally have near: "\<bar>of_int m * P - \<bar>x\<bar>\<bar> \<le> P / 2" by simp
  have td: "toDouble x = sgn x * (of_int m * P)"
    using assms by (simp only: toDouble_def Let_def if_False mult.assoc m_def P_def)
  consider "0 < x" | "x < 0" using assms by linarith
  then show ?thesis
  proof cases
    case 1
    then have "toDouble x - x = of_int m * P - \<bar>x\<bar>"
      unfolding td by simp
    with near show ?thesis unfolding P_def by (simp only:)
  next
    case 2
    then have "toDouble x - x = - (of_int m * P - \<bar>x\<bar>)"
      unfolding td by simp
    with near show ?thesis unfolding P_def by (simp only: abs_minus_cancel)
  qed
qed

section \<open>Properties of the coin selector\<close>

lemma selectLoop_step:
  assumes "tot = sum_list (map value sel)"
  shows "selectLoop (u # rest) sel tot t r =
     (if accepted (sel @ u # rest) t r (Suc (length sel))
      then Some (resultAt (sel @ u # rest) t r (Suc (length sel)))
      else selectLoop rest (sel @ [u]) (tot + value u) t r)"
  using assms
  by (simp add: accepted_def resultAt_def prefixTotal_def calculateFee_def Let_def)

lemma selectLoop_char:
  "tot = sum_list (map value sel) \<Longrightarrow>
   selectLoop rest sel tot t r =
     (if \<exists>k. length sel < k \<and> k \<le> length sel + length rest \<and> accepted (sel @ rest) t r k
      then Some (resultAt (sel @ rest) t r
              (LEAST k. length sel < k \<and> k \<le> length sel + length rest \<and> accepted (sel @ rest) t r k))
      else None)"
proof (induction rest arbitrary: sel tot)
  case Nil
  then show ?case by simp
next
  case (Cons u rest)
  let ?xs = "sel @ u # rest"
  let ?P = "\<lambda>k. length sel < k \<and> k \<le> length sel + length (u # rest) \<and> accepted ?xs t r k"
  have tot': "tot + value u = sum_list (map value (sel @ [u]))" using Cons.prems by simp
  note IH = Cons.IH[OF tot']
  show ?case
  proof (cases "accepted ?xs t r (Suc (length sel))")
    case True
    have P: "?P (Suc (length sel))" using True by simp
    have least: "(LEAST k. ?P k) = Suc (length sel)"
      by (rule Least_equality) (use P in auto)
    have ex: "\<exists>k. ?P k" using P by blast
    have "selectLoop (u # rest) sel tot t r = Some (resultAt ?xs t r (Suc (length sel)))"
      by (subst selectLoop_step[OF Cons.prems]) (simp only: True if_True)
    with ex least show ?thesis by (simp only: if_True)
  next
    case False
    let ?Q = "\<lambda>k. length (sel @ [u]) < k \<and> k \<le> length (sel @ [u]) + length rest \<and> accepted ?xs t r k"
    have eq: "?P k = ?Q k" for k
    proof (cases "k = Suc (length sel)")
      case True
      then show ?thesis using False by simp
    next
      case False
      then show ?thesis by auto
    qed
    have "selectLoop (u # rest) sel tot t r = selectLoop rest (sel @ [u]) (tot + value u) t r"
      by (subst selectLoop_step[OF Cons.prems]) (simp only: False if_False)
    also have "\<dots> = (if \<exists>k. ?Q k then Some (resultAt ?xs t r (LEAST k. ?Q k)) else None)"
      using IH by (simp only: append_assoc append_Cons append_Nil)
    also have "\<dots> = (if \<exists>k. ?P k then Some (resultAt ?xs t r (LEAST k. ?P k)) else None)"
      by (simp only: eq)
    finally show ?thesis .
  qed
qed

lemma selectLoop_None_iff:
  assumes "tot = sum_list (map value sel)"
  shows "selectLoop rest sel tot t r = None \<longleftrightarrow>
     (\<forall>k. length sel < k \<and> k \<le> length sel + length rest \<longrightarrow> \<not> accepted (sel @ rest) t r k)"
  by (subst selectLoop_char[OF assms]) auto

lemma selectLoop_SomeD:
  assumes tot: "tot = sum_list (map value sel)"
    and res: "selectLoop rest sel tot t r = Some res"
  shows "\<exists>k. length sel < k \<and> k \<le> length sel + length rest \<and> accepted (sel @ rest) t r k
            \<and> (\<forall>j. length sel < j \<and> j < k \<longrightarrow> \<not> accepted (sel @ rest) t r j)
            \<and> res = resultAt (sel @ rest) t r k"
proof -
  let ?P = "\<lambda>k. length sel < k \<and> k \<le> length sel + length rest \<and> accepted (sel @ rest) t r k"
  have char: "selectLoop rest sel tot t r =
      (if \<exists>k. ?P k then Some (resultAt (sel @ rest) t r (LEAST k. ?P k)) else None)"
    by (rule selectLoop_char[OF tot])
  have ex: "\<exists>k. ?P k"
  proof (rule ccontr)
    assume "\<not> (\<exists>k. ?P k)"
    with char have "selectLoop rest sel tot t r = None" by (simp only: if_False)
    with res show False by simp
  qed
  then obtain k0 where k0: "?P k0" ..
  let ?k = "LEAST k. ?P k"
  have Pk: "?P ?k" using k0 by (rule LeastI)
  have min: "\<not> ?P j" if "j < ?k" for j using that by (rule not_less_Least)
  from char ex have "selectLoop rest sel tot t r = Some (resultAt (sel @ rest) t r ?k)"
    by (simp only: if_True)
  with res have "res = resultAt (sel @ rest) t r ?k" by simp
  moreover have "\<forall>j. length sel < j \<and> j < ?k \<longrightarrow> \<not> accepted (sel @ rest) t r j"
  proof (intro allI impI)
    fix j assume j: "length sel < j \<and> j < ?k"
    then have "\<not> ?P j" using min by blast
    moreover have "j \<le> length sel + length rest" using j Pk by linarith
    ultimately show "\<not> accepted (sel @ rest) t r j" using j by blast
  qed
  ultimately show ?thesis using Pk by blast
qed

lemma length_sortedUtxos: "length (sortedUtxos xs) = length xs"
  by (simp add: sortedUtxos_def)

lemma selectUtxos_SomeD:
  assumes "selectUtxos availableUtxos t r sender recipient = Inr (Some res)"
  shows "\<exists>k. 1 \<le> k \<and> k \<le> length availableUtxos
            \<and> accepted (sortedUtxos availableUtxos) t r k
            \<and> (\<forall>j. 1 \<le> j \<and> j < k \<longrightarrow> \<not> accepted (sortedUtxos availableUtxos) t r j)
            \<and> res = resultAt (sortedUtxos availableUtxos) t r k"
proof -
  from assms have "selectLoop (sortedUtxos availableUtxos) [] 0 t r = Some res"
    by (simp add: selectUtxos_def split: if_splits)
  from selectLoop_SomeD[OF _ this] show ?thesis
    by (simp add: length_sortedUtxos Suc_le_eq)
qed

lemma resultAt_conservation:
  assumes "accepted xs t r k"
  shows "totalValue (resultAt xs t r k)
           = t + CoinSelectionResult.fee (resultAt xs t r k)
               + CoinSelectionResult.change (resultAt xs t r k)"
    and "CoinSelectionResult.change (resultAt xs t r k) = 0
           \<or> DUST_THRESHOLD \<le> CoinSelectionResult.change (resultAt xs t r k)"
    and "totalValue (resultAt xs t r k)
           = sum_list (map value (CoinSelectionResult.utxos (resultAt xs t r k)))"
  using assms by (simp_all add: resultAt_def accepted_def prefixTotal_def Let_def)

lemma sortedUtxos_descending:
  "sorted_wrt (\<lambda>a b. value a \<ge> value b) (sortedUtxos xs)"
proof -
  have "sorted (map (\<lambda>u. - value u) (sortedUtxos xs))"
    by (simp add: sortedUtxos_def)
  then show ?thesis
    by (simp add: sorted_wrt_map)
qed

lemma mset_sortedUtxos: "mset (sortedUtxos xs) = mset xs"
  by (simp add: sortedUtxos_def)

lemma sortedUtxos_stable:
  "filter (\<lambda>u. value u = v) (sortedUtxos xs) = filter (\<lambda>u. value u = v) xs"
  using sort_key_stable[of "\<lambda>u. - value u" "- v" xs]
  by (simp add: sortedUtxos_def)

lemma utxos_resultAt: "CoinSelectionResult.utxos (resultAt xs t r k) = take k xs"
  by (simp add: resultAt_def Let_def)

text \<open>
  The loop tests a prefix only after it has added a UTXO, so the prefixes in question
  have lengths \<open>1\<close> to \<open>n\<close>. For a positive target and a nonnegative fee rate the
  empty prefix does not meet the acceptance condition either.
\<close>

lemma empty_prefix_not_accepted:
  assumes "0 < t" and "0 \<le> r"
  shows "\<not> accepted xs t r 0"
proof -
  have "0 \<le> rat_of_int (estimateTxSize 0 True) * r"
    using assms(2)
    by (simp add: estimateTxSize_def BASE_TX_SIZE_def P2TR_INPUT_SIZE_def P2TR_OUTPUT_SIZE_def)
  then have "0 \<le> jsMul (rat_of_int (estimateTxSize 0 True)) r"
    unfolding jsMul_def by (rule toDouble_nonneg)
  then have "0 \<le> calculateFee 0 True r"
    by (simp add: calculateFee_def Math_ceil_def)
  with assms(1) show ?thesis
    by (simp add: accepted_def prefixTotal_def Let_def)
qed

subsection \<open>Size and fee formulas\<close>

text \<open>
  C4, as the code has it: for every input count \<open>n\<close> (in particular every \<open>n \<ge> 0\<close>),
  \<open>estimateTxSize n withChange\<close> is \<open>10 + n * 58 + (withChange ? 2 : 1) * 43\<close>
  (the constants are 10, 58 and 43), and \<open>calculateFee n withChange rate\<close> is
  \<open>Math.ceil\<close> of the double product \<open>estimateTxSize n withChange * rate\<close>. For an
  integer rate whose product with the size is below \<open>2^53\<close> in magnitude the fee is
  exactly size times rate; for any rate whose exact product is below \<open>2^53\<close> in
  magnitude the fee is the ceiling of the exact product or one less.
\<close>

theorem estimateTxSize_formula_calculateFee_rounded:
  "estimateTxSize n withChange
     = BASE_TX_SIZE + n * P2TR_INPUT_SIZE + (if withChange then 2 else 1) * P2TR_OUTPUT_SIZE
   \<and> BASE_TX_SIZE = 10 \<and> P2TR_INPUT_SIZE = 58 \<and> P2TR_OUTPUT_SIZE = 43
   \<and> estimateTxSize n withChange = 10 + n * 58 + (if withChange then 2 else 1) * 43
   \<and> calculateFee n withChange rate
       = Math_ceil (jsMul (of_int (estimateTxSize n withChange)) rate)
   \<and> (\<forall>i. \<bar>estimateTxSize n withChange * i\<bar> < 2 ^ 53
          \<longrightarrow> calculateFee n withChange (of_int i) = estimateTxSize n withChange * i)
   \<and> (\<bar>of_int (estimateTxSize n withChange) * rate\<bar> < 2 ^ 53
          \<longrightarrow> \<lceil>of_int (estimateTxSize n withChange) * rate\<rceil> - 1
                \<le> calculateFee n withChange rate
            \<and> calculateFee n withChange rate
                \<le> \<lceil>of_int (estimateTxSize n withChange) * rate\<rceil>)"
proof -
  have size: "estimateTxSize n withChange
     = BASE_TX_SIZE + n * P2TR_INPUT_SIZE + (if withChange then 2 else 1) * P2TR_OUTPUT_SIZE"
    by (simp add: estimateTxSize_def)
  have fee: "calculateFee n withChange r
       = \<lceil>toDouble (of_int (estimateTxSize n withChange) * r)\<rceil>" for r
    by (simp add: calculateFee_def Math_ceil_def jsMul_def)
  have int_rate: "calculateFee n withChange (of_int i) = estimateTxSize n withChange * i"
    if "\<bar>estimateTxSize n withChange * i\<bar> < 2 ^ 53" for i
  proof -
    have prod: "rat_of_int (estimateTxSize n withChange) * rat_of_int i
            = rat_of_int (estimateTxSize n withChange * i)"
      by simp
    have td: "toDouble (rat_of_int (estimateTxSize n withChange * i))
            = rat_of_int (estimateTxSize n withChange * i)"
      using that by (rule toDouble_of_int)
    show ?thesis unfolding fee prod td by (rule ceiling_of_int)
  qed
  have near: "\<lceil>of_int (estimateTxSize n withChange) * rate\<rceil> - 1
                \<le> calculateFee n withChange rate
            \<and> calculateFee n withChange rate
                \<le> \<lceil>of_int (estimateTxSize n withChange) * rate\<rceil>"
    if "\<bar>of_int (estimateTxSize n withChange) * rate\<bar> < 2 ^ 53"
    unfolding fee using that by (rule ceiling_toDouble)
  show ?thesis
    using int_rate near
    by (simp add: size fee Math_ceil_def jsMul_def BASE_TX_SIZE_def P2TR_INPUT_SIZE_def
        P2TR_OUTPUT_SIZE_def)
qed

theorem estimateTxSize_formula_calculateFee_rounded_witness:
  "estimateTxSize 1 True = 154
   \<and> \<bar>estimateTxSize 1 True * 5\<bar> < 2 ^ 53
   \<and> calculateFee 1 True (of_int 5) = estimateTxSize 1 True * 5
   \<and> \<bar>of_int (estimateTxSize 3 True) * toDouble (1 / 10)\<bar> < 2 ^ 53
   \<and> \<lceil>of_int (estimateTxSize 3 True) * toDouble (1 / 10)\<rceil> - 1
        \<le> calculateFee 3 True (toDouble (1 / 10))
   \<and> calculateFee 3 True (toDouble (1 / 10))
        \<le> \<lceil>of_int (estimateTxSize 3 True) * toDouble (1 / 10)\<rceil>"
proof -
  have small: "\<bar>estimateTxSize 1 True * 5\<bar> < 2 ^ 53"
    by (simp add: estimateTxSize_def BASE_TX_SIZE_def P2TR_INPUT_SIZE_def P2TR_OUTPUT_SIZE_def)
  have frac: "\<bar>of_int (estimateTxSize 3 True) * toDouble (1 / 10)\<bar> < 2 ^ 53"
    by code_simp
  note int_case = estimateTxSize_formula_calculateFee_rounded[of 1 True 5]
  note frac_case = estimateTxSize_formula_calculateFee_rounded[of 3 True "toDouble (1 / 10)"]
  from int_case have "estimateTxSize 1 True = 10 + 1 * 58 + (if True then 2 else 1) * 43"
    by blast
  then have size: "estimateTxSize 1 True = 154" by simp
  from int_case have "\<forall>i. \<bar>estimateTxSize 1 True * i\<bar> < 2 ^ 53
          \<longrightarrow> calculateFee 1 True (of_int i) = estimateTxSize 1 True * i"
    by blast
  with small have exact: "calculateFee 1 True (of_int 5) = estimateTxSize 1 True * 5"
    by blast
  from frac_case frac
  have near: "\<lceil>of_int (estimateTxSize 3 True) * toDouble (1 / 10)\<rceil> - 1
        \<le> calculateFee 3 True (toDouble (1 / 10))
   \<and> calculateFee 3 True (toDouble (1 / 10))
        \<le> \<lceil>of_int (estimateTxSize 3 True) * toDouble (1 / 10)\<rceil>"
    by blast
  from size small exact frac near show ?thesis by (intro conjI) blast+
qed

text \<open>
  The fee is not the ceiling of the exact product at fractional rates. With three
  inputs and change at the rate written \<open>0.1\<close>, the double product is \<open>27\<close> and the fee
  \<open>27\<close>, while the exact product of the size and the double is above \<open>27\<close> and its
  ceiling \<open>28\<close>; with nine inputs and no change at the rate written \<open>0.28\<close>, the
  fee is \<open>162\<close>, while \<open>575 * 28 / 100\<close> is \<open>161\<close>.
\<close>

theorem calculateFee_not_exact_ceiling:
  "calculateFee 3 True (toDouble (1 / 10)) = 27
   \<and> \<lceil>of_int (estimateTxSize 3 True) * toDouble (1 / 10)\<rceil> = 28
   \<and> calculateFee 9 False (toDouble (28 / 100)) = 162
   \<and> \<lceil>of_int (estimateTxSize 9 False) * (28 / 100 :: rat)\<rceil> = 161"
  by code_simp

subsection \<open>Conservation of value and dust avoidance\<close>

text \<open>
  C1: for every UTXO list, target amount and fee rate, when \<open>selectUtxos\<close> returns a
  selection, its \<open>totalValue\<close> (the sum of the values of the chosen UTXOs) equals
  \<open>targetAmount + fee + change\<close> exactly, and the change is \<open>0\<close> or at least the dust
  threshold \<open>546\<close>.
\<close>

theorem selectUtxos_conservation:
  assumes "selectUtxos availableUtxos targetAmount rate sender recipient
             = Inr (Some sel)"
  shows "totalValue sel = sum_list (map value (CoinSelectionResult.utxos sel))
       \<and> totalValue sel = targetAmount + CoinSelectionResult.fee sel + CoinSelectionResult.change sel
       \<and> (CoinSelectionResult.change sel = 0 \<or> CoinSelectionResult.change sel \<ge> 546)"
proof -
  from selectUtxos_SomeD[OF assms] obtain k where
    acc: "accepted (sortedUtxos availableUtxos) targetAmount rate k"
    and sel: "sel = resultAt (sortedUtxos availableUtxos) targetAmount rate k" by blast
  from resultAt_conservation[OF acc] show ?thesis
    unfolding sel DUST_THRESHOLD_def by simp
qed

theorem selectUtxos_conservation_witness:
  "selectUtxos [mkUtxo ''a'' 50000 True, mkUtxo ''b'' 100000 True] 80000 5 ''bc1psender'' ''bc1precipient''
     = Inr (Some \<lparr>CoinSelectionResult.utxos = [mkUtxo ''b'' 100000 True], totalValue = 100000, CoinSelectionResult.fee = 770, CoinSelectionResult.change = 19230\<rparr>)
   \<and> (100000::int) = 80000 + 770 + 19230 \<and> (19230::int) \<ge> 546"
proof -
  have run: "selectUtxos [mkUtxo ''a'' 50000 True, mkUtxo ''b'' 100000 True] 80000 5
                ''bc1psender'' ''bc1precipient''
     = Inr (Some \<lparr>CoinSelectionResult.utxos = [mkUtxo ''b'' 100000 True], totalValue = 100000, CoinSelectionResult.fee = 770, CoinSelectionResult.change = 19230\<rparr>)"
    by code_simp
  from selectUtxos_conservation[OF run] run show ?thesis by simp
qed

subsection \<open>Insufficient funds\<close>

text \<open>
  C2, as the code has it: the list examined is the input sorted by value descending (a
  permutation of the input in which every element is at least as large as those after
  it and UTXOs of equal value keep their input order), and for a sender that passes the
  selector's address check \<open>selectUtxos\<close> returns the insufficient-funds outcome
  \<open>null\<close> if and only if no non-empty prefix of that list (lengths \<open>1\<close> to \<open>n\<close>)
  meets the acceptance condition: \<open>total \<ge> target + feeWithChange\<close> with change of at
  least the dust threshold or, when the change is below it, the no-change fallback
  \<open>total \<ge> target + feeNoChange\<close>. The outcome \<open>null\<close> carries no selection, and
  every selection that is returned is an accepted non-empty prefix, never a partial one.
\<close>

theorem selectUtxos_insufficient_iff:
  assumes "isTaprootAddress sender"
  shows "mset (sortedUtxos availableUtxos) = mset availableUtxos
       \<and> sorted_wrt (\<lambda>a b. value a \<ge> value b) (sortedUtxos availableUtxos)
       \<and> (\<forall>v. filter (\<lambda>u. value u = v) (sortedUtxos availableUtxos)
                = filter (\<lambda>u. value u = v) availableUtxos)
       \<and> (selectUtxos availableUtxos targetAmount rate sender recipient = Inr None
          \<longleftrightarrow> (\<forall>k. 1 \<le> k \<and> k \<le> length availableUtxos
                  \<longrightarrow> \<not> accepted (sortedUtxos availableUtxos) targetAmount rate k))
       \<and> (\<forall>sel. selectUtxos availableUtxos targetAmount rate sender recipient
                  = Inr (Some sel)
              \<longrightarrow> (\<exists>k. 1 \<le> k \<and> k \<le> length availableUtxos
                     \<and> CoinSelectionResult.utxos sel = take k (sortedUtxos availableUtxos)
                     \<and> accepted (sortedUtxos availableUtxos) targetAmount rate k))"
proof -
  have "selectLoop (sortedUtxos availableUtxos) [] 0 targetAmount rate = None
        \<longleftrightarrow> (\<forall>k. 1 \<le> k \<and> k \<le> length availableUtxos
                  \<longrightarrow> \<not> accepted (sortedUtxos availableUtxos) targetAmount rate k)"
    using selectLoop_None_iff[of 0 "[]" "sortedUtxos availableUtxos" targetAmount rate]
    by (simp add: length_sortedUtxos Suc_le_eq)
  then have none: "selectUtxos availableUtxos targetAmount rate sender recipient = Inr None
          \<longleftrightarrow> (\<forall>k. 1 \<le> k \<and> k \<le> length availableUtxos
                  \<longrightarrow> \<not> accepted (sortedUtxos availableUtxos) targetAmount rate k)"
    using assms by (simp add: selectUtxos_def)
  have some: "\<exists>k. 1 \<le> k \<and> k \<le> length availableUtxos
          \<and> CoinSelectionResult.utxos sel = take k (sortedUtxos availableUtxos)
          \<and> accepted (sortedUtxos availableUtxos) targetAmount rate k"
    if "selectUtxos availableUtxos targetAmount rate sender recipient = Inr (Some sel)" for sel
    using selectUtxos_SomeD[OF that] utxos_resultAt by blast
  from none some mset_sortedUtxos sortedUtxos_descending sortedUtxos_stable
  show ?thesis by (intro conjI allI impI)
qed

theorem selectUtxos_insufficient_iff_witness:
  "isTaprootAddress ''bc1psender''
   \<and> sortedUtxos [mkUtxo ''a'' 100 True, mkUtxo ''b'' 300 True, mkUtxo ''c'' 200 True]
       = [mkUtxo ''b'' 300 True, mkUtxo ''c'' 200 True, mkUtxo ''a'' 100 True]
   \<and> selectUtxos [mkUtxo ''a'' 100 True, mkUtxo ''b'' 300 True, mkUtxo ''c'' 200 True] 400 1
         ''bc1psender'' ''bc1precipient'' = Inr None
   \<and> \<not> accepted (sortedUtxos [mkUtxo ''a'' 100 True, mkUtxo ''b'' 300 True, mkUtxo ''c'' 200 True])
           400 1 1
   \<and> \<not> accepted (sortedUtxos [mkUtxo ''a'' 100 True, mkUtxo ''b'' 300 True, mkUtxo ''c'' 200 True])
           400 1 2
   \<and> \<not> accepted (sortedUtxos [mkUtxo ''a'' 100 True, mkUtxo ''b'' 300 True, mkUtxo ''c'' 200 True])
           400 1 3
   \<and> sortedUtxos [mkUtxo ''d'' 10 True, mkUtxo ''e'' 1000 True]
       = [mkUtxo ''e'' 1000 True, mkUtxo ''d'' 10 True]
   \<and> selectUtxos [mkUtxo ''d'' 10 True, mkUtxo ''e'' 1000 True] 800 1
         ''bc1psender'' ''bc1precipient'' \<noteq> Inr None
   \<and> (\<exists>k. 1 \<le> k \<and> k \<le> length [mkUtxo ''d'' 10 True, mkUtxo ''e'' 1000 True]
          \<and> accepted (sortedUtxos [mkUtxo ''d'' 10 True, mkUtxo ''e'' 1000 True]) 800 1 k)
   \<and> \<not> accepted [mkUtxo ''d'' 10 True, mkUtxo ''e'' 1000 True] 800 1 1
   \<and> \<not> accepted [mkUtxo ''d'' 10 True, mkUtxo ''e'' 1000 True] 800 1 2"
proof -
  let ?poor = "[mkUtxo ''a'' 100 True, mkUtxo ''b'' 300 True, mkUtxo ''c'' 200 True]"
  let ?rich = "[mkUtxo ''d'' 10 True, mkUtxo ''e'' 1000 True]"
  have taproot: "isTaprootAddress ''bc1psender''"
    by (simp add: isTaprootAddress_def startsWith_def)
  have sorted_poor: "sortedUtxos ?poor
       = [mkUtxo ''b'' 300 True, mkUtxo ''c'' 200 True, mkUtxo ''a'' 100 True]"
    by code_simp
  have sorted_rich: "sortedUtxos ?rich = [mkUtxo ''e'' 1000 True, mkUtxo ''d'' 10 True]"
    by code_simp
  have null: "selectUtxos ?poor 400 1 ''bc1psender'' ''bc1precipient'' = Inr None"
    by code_simp
  have found: "selectUtxos ?rich 800 1 ''bc1psender'' ''bc1precipient''
       = Inr (Some \<lparr>CoinSelectionResult.utxos = [mkUtxo ''e'' 1000 True], totalValue = 1000,
                    CoinSelectionResult.fee = 200, CoinSelectionResult.change = 0\<rparr>)"
    by code_simp
  have unsorted: "\<not> accepted ?rich 800 1 1" "\<not> accepted ?rich 800 1 2"
    by code_simp+
  note poor = selectUtxos_insufficient_iff[OF taproot, of ?poor 400 1 "''bc1precipient''"]
  note rich = selectUtxos_insufficient_iff[OF taproot, of ?rich 800 1 "''bc1precipient''"]
  from poor null have none: "\<forall>k. 1 \<le> k \<and> k \<le> length ?poor
      \<longrightarrow> \<not> accepted (sortedUtxos ?poor) 400 1 k"
    by blast
  have n1: "\<not> accepted (sortedUtxos ?poor) 400 1 1"
    and n2: "\<not> accepted (sortedUtxos ?poor) 400 1 2"
    and n3: "\<not> accepted (sortedUtxos ?poor) 400 1 3"
    using none by simp_all
  from found have not_null: "selectUtxos ?rich 800 1 ''bc1psender'' ''bc1precipient'' \<noteq> Inr None"
    by simp
  with rich have "\<not> (\<forall>k. 1 \<le> k \<and> k \<le> length ?rich
      \<longrightarrow> \<not> accepted (sortedUtxos ?rich) 800 1 k)"
    by blast
  then have ex: "\<exists>k. 1 \<le> k \<and> k \<le> length ?rich \<and> accepted (sortedUtxos ?rich) 800 1 k"
    by blast
  from taproot sorted_poor null n1 n2 n3 sorted_rich not_null ex unsorted
  show ?thesis by (intro conjI)
qed

text \<open>
  The empty prefix is a prefix too, and the loop never tests it: with no UTXOs, target
  \<open>0\<close> and rate \<open>0\<close> the empty prefix meets the acceptance condition (\<open>0 \<ge> 0 + 0\<close>, and
  the fallback \<open>0 \<ge> 0 + 0\<close>), yet the selector answers \<open>null\<close>.
\<close>

theorem selectUtxos_null_despite_empty_prefix:
  "selectUtxos [] 0 0 ''bc1psender'' ''bc1precipient'' = Inr None
   \<and> take 0 (sortedUtxos []) = []
   \<and> accepted (sortedUtxos []) 0 0 0"
  by code_simp

subsection \<open>The selection is the shortest accepted prefix\<close>

text \<open>
  C8: for every successful \<open>selectUtxos\<close> result, the chosen UTXOs are exactly a prefix
  of the input list sorted by value descending (a permutation of the input in which
  every element is at least as large as those after it and UTXOs of equal value keep
  their input order), that prefix meets the
  acceptance condition, and no strictly shorter prefix formed by the loop would have
  been accepted: it is the accepted prefix of minimal cardinality.
\<close>

theorem selectUtxos_minimal_prefix:
  assumes "selectUtxos availableUtxos targetAmount rate sender recipient
             = Inr (Some sel)"
  shows "mset (sortedUtxos availableUtxos) = mset availableUtxos
       \<and> sorted_wrt (\<lambda>a b. value a \<ge> value b) (sortedUtxos availableUtxos)
       \<and> (\<forall>v. filter (\<lambda>u. value u = v) (sortedUtxos availableUtxos)
                = filter (\<lambda>u. value u = v) availableUtxos)
       \<and> (\<exists>k. 1 \<le> k \<and> k \<le> length availableUtxos
              \<and> CoinSelectionResult.utxos sel = take k (sortedUtxos availableUtxos)
              \<and> accepted (sortedUtxos availableUtxos) targetAmount rate k
              \<and> (\<forall>j. 1 \<le> j \<and> j < k
                     \<longrightarrow> \<not> accepted (sortedUtxos availableUtxos) targetAmount rate j))"
proof -
  from selectUtxos_SomeD[OF assms] obtain k where
    k: "1 \<le> k" "k \<le> length availableUtxos"
    and acc: "accepted (sortedUtxos availableUtxos) targetAmount rate k"
    and least: "\<forall>j. 1 \<le> j \<and> j < k
                  \<longrightarrow> \<not> accepted (sortedUtxos availableUtxos) targetAmount rate j"
    and sel: "sel = resultAt (sortedUtxos availableUtxos) targetAmount rate k" by blast
  have "CoinSelectionResult.utxos sel = take k (sortedUtxos availableUtxos)"
    unfolding sel by (rule utxos_resultAt)
  with k acc least have "\<exists>k. 1 \<le> k \<and> k \<le> length availableUtxos
              \<and> CoinSelectionResult.utxos sel = take k (sortedUtxos availableUtxos)
              \<and> accepted (sortedUtxos availableUtxos) targetAmount rate k
              \<and> (\<forall>j. 1 \<le> j \<and> j < k
                     \<longrightarrow> \<not> accepted (sortedUtxos availableUtxos) targetAmount rate j)"
    by blast
  with mset_sortedUtxos sortedUtxos_descending sortedUtxos_stable show ?thesis
    by (intro conjI allI)
qed

theorem selectUtxos_minimal_prefix_witness:
  "selectUtxos [mkUtxo ''a'' 600 True, mkUtxo ''b'' 900 True, mkUtxo ''c'' 700 True] 1500 1
       ''tb1psender'' ''tb1precipient''
     = Inr (Some \<lparr>CoinSelectionResult.utxos =
                    [mkUtxo ''b'' 900 True, mkUtxo ''c'' 700 True, mkUtxo ''a'' 600 True],
                  totalValue = 2200, CoinSelectionResult.fee = 700,
                  CoinSelectionResult.change = 0\<rparr>)
   \<and> (\<exists>k. 1 \<le> k \<and> k \<le> length [mkUtxo ''a'' 600 True, mkUtxo ''b'' 900 True, mkUtxo ''c'' 700 True]
          \<and> [mkUtxo ''b'' 900 True, mkUtxo ''c'' 700 True, mkUtxo ''a'' 600 True]
              = take k (sortedUtxos [mkUtxo ''a'' 600 True, mkUtxo ''b'' 900 True, mkUtxo ''c'' 700 True])
          \<and> (\<forall>j. 1 \<le> j \<and> j < k
                 \<longrightarrow> \<not> accepted (sortedUtxos [mkUtxo ''a'' 600 True, mkUtxo ''b'' 900 True,
                                   mkUtxo ''c'' 700 True]) 1500 1 j))"
proof -
  have run: "selectUtxos [mkUtxo ''a'' 600 True, mkUtxo ''b'' 900 True, mkUtxo ''c'' 700 True] 1500 1
       ''tb1psender'' ''tb1precipient''
     = Inr (Some \<lparr>CoinSelectionResult.utxos =
                    [mkUtxo ''b'' 900 True, mkUtxo ''c'' 700 True, mkUtxo ''a'' 600 True],
                  totalValue = 2200, CoinSelectionResult.fee = 700,
                  CoinSelectionResult.change = 0\<rparr>)"
    by code_simp
  from selectUtxos_minimal_prefix[OF run] run show ?thesis by auto
qed

subsection \<open>Fee bounds when the change output is suppressed\<close>



lemma selectLoop_store_frame:
  "b \<noteq> selectedRef \<Longrightarrow>
   arrays (fst (selectLoop_store xs selectedRef tot t r st)) b = arrays st b"
proof (induction xs arbitrary: tot st)
  case Nil
  then show ?case by simp
next
  case (Cons u xs)
  have push: "arrays (Array_push st selectedRef u) b = arrays st b"
    using Cons.prems by (simp add: Array_push_def)
  show ?case
    using Cons.IH[OF Cons.prems, of _ "Array_push st selectedRef u"] push
    by (simp add: Let_def)
qed

lemma selectLoop_store_fresh:
  "fresh (fst (selectLoop_store xs selectedRef tot t r st)) = fresh st"
proof (induction xs arbitrary: tot st)
  case Nil
  then show ?case by simp
next
  case (Cons u xs)
  have push: "fresh (Array_push st selectedRef u) = fresh st"
    by (simp add: Array_push_def)
  show ?case
    using Cons.IH[of _ "Array_push st selectedRef u"] push
    by (simp add: Let_def)
qed

lemma selectLoop_store_pure:
  "map_option (loadSelection (fst (selectLoop_store xs selectedRef tot t r st)))
       (snd (selectLoop_store xs selectedRef tot t r st))
     = selectLoop xs (readArray st selectedRef) tot t r"
proof (induction xs arbitrary: tot st)
  case Nil
  then show ?case by simp
next
  case (Cons u xs)
  have rd: "readArray (Array_push st selectedRef u) selectedRef = readArray st selectedRef @ [u]"
    by (simp add: Array_push_def readArray_def)
  show ?case
    using Cons.IH[of _ "Array_push st selectedRef u"]
    by (simp add: Let_def rd loadSelection_def)
qed

lemma newArray_simps [simp]:
  "fst (newArray st xs) = fresh st"
  "arrays (snd (newArray st xs)) = (arrays st)(fresh st \<mapsto> xs)"
  "fresh (snd (newArray st xs)) = Suc (fresh st)"
  by (simp_all add: newArray_def)

subsection \<open>The caller's array is left as it was\<close>

text \<open>
  C9: \<open>selectUtxos\<close> never mutates its input. In a store where every allocated array
  lies below the allocation pointer, the array \<open>availableUtxos\<close> the caller passed holds
  the same elements in the same order after the call as before, as does every other
  array that existed before the call: the selector sorts a fresh copy and pushes onto a
  fresh array. What the call returns is what the selector computes on the elements of
  the caller's array.
\<close>

theorem selectUtxos_store_frame:
  assumes "\<forall>b. arrays st b \<noteq> None \<longrightarrow> b < fresh st"
    and "arrays st availableRef = Some xs"
  shows "arrays (fst (selectUtxos_store st availableRef target rate sender recipient)) availableRef
           = Some xs
       \<and> (\<forall>b. b < fresh st \<longrightarrow>
              arrays (fst (selectUtxos_store st availableRef target rate sender recipient)) b
                = arrays st b)
       \<and> map_sum id (map_option
               (loadSelection (fst (selectUtxos_store st availableRef target rate sender recipient))))
             (snd (selectUtxos_store st availableRef target rate sender recipient))
           = selectUtxos xs target rate sender recipient"
proof (cases "isTaprootAddress sender")
  case False
  then show ?thesis using assms by (simp add: selectUtxos_store_def selectUtxos_def)
next
  case True
  define st1 where "st1 = snd (newArray st (readArray st availableRef))"
  define st2 where "st2 = Array_sort st1 (fresh st)"
  define st3 where "st3 = snd (newArray st2 [])"
  define loop where
    "loop = selectLoop_store (readArray st3 (fresh st)) (Suc (fresh st)) 0 target rate st3"
  have rd: "readArray st availableRef = xs" using assms(2) by (simp add: readArray_def)
  have f2: "fresh st2 = Suc (fresh st)" by (simp add: st2_def st1_def Array_sort_def)
  have run: "selectUtxos_store st availableRef target rate sender recipient = (fst loop, Inr (snd loop))"
    using True f2
    by (simp add: selectUtxos_store_def Let_def split_beta newArray_def loop_def st3_def st2_def st1_def)
  have sorted: "readArray st3 (fresh st) = sortedUtxos xs"
    by (simp add: st3_def st2_def st1_def Array_sort_def readArray_def sortedUtxos_def rd f2[unfolded st2_def st1_def]
        assms(2))
  have empty: "readArray st3 (Suc (fresh st)) = []"
    using f2 by (simp add: st3_def readArray_def)
  have old: "arrays st3 b = arrays st b" if "b < fresh st" for b
    using that f2 by (simp add: st3_def st2_def st1_def Array_sort_def)
  have frame: "arrays (fst loop) b = arrays st b" if "b < fresh st" for b
  proof -
    have "b \<noteq> Suc (fresh st)" using that by simp
    then have "arrays (fst loop) b = arrays st3 b"
      unfolding loop_def by (rule selectLoop_store_frame)
    with old[OF that] show ?thesis by simp
  qed
  have avail: "availableRef < fresh st" using assms by auto
  have pure: "map_option (loadSelection (fst loop)) (snd loop) = selectLoop (sortedUtxos xs) [] 0 target rate"
    unfolding loop_def sorted using selectLoop_store_pure[of "sortedUtxos xs" "Suc (fresh st)" 0 target rate st3]
    by (simp add: empty)
  show ?thesis
    unfolding run using frame avail assms(2) pure True
    by (simp add: selectUtxos_def)
qed

theorem selectUtxos_store_frame_witness:
  "arrays \<lparr>arrays = [0 \<mapsto> [mkUtxo ''a'' 600 True, mkUtxo ''b'' 900 True]], fresh = 1\<rparr> 0
      = Some [mkUtxo ''a'' 600 True, mkUtxo ''b'' 900 True]
   \<and> sortedUtxos [mkUtxo ''a'' 600 True, mkUtxo ''b'' 900 True]
      = [mkUtxo ''b'' 900 True, mkUtxo ''a'' 600 True]
   \<and> arrays (fst (selectUtxos_store
                   \<lparr>arrays = [0 \<mapsto> [mkUtxo ''a'' 600 True, mkUtxo ''b'' 900 True]], fresh = 1\<rparr>
                   0 700 1 ''tb1psender'' ''tb1precipient'')) 0
      = Some [mkUtxo ''a'' 600 True, mkUtxo ''b'' 900 True]"
proof -
  let ?st = "\<lparr>arrays = [0 \<mapsto> [mkUtxo ''a'' 600 True, mkUtxo ''b'' 900 True]], fresh = 1\<rparr>"
  have alloc: "\<forall>b. arrays ?st b \<noteq> None \<longrightarrow> b < fresh ?st"
    by (simp split: if_splits)
  have avail: "arrays ?st 0 = Some [mkUtxo ''a'' 600 True, mkUtxo ''b'' 900 True]"
    by simp
  have srt: "sortedUtxos [mkUtxo ''a'' 600 True, mkUtxo ''b'' 900 True]
      = [mkUtxo ''b'' 900 True, mkUtxo ''a'' 600 True]"
    by (simp add: sortedUtxos_def mkUtxo_def)
  from selectUtxos_store_frame[OF alloc avail, of 700 1 "''tb1psender''" "''tb1precipient''"]
    avail srt
  show ?thesis by simp
qed

section \<open>Properties of the builder and the hook\<close>

lemma broadcastCalls_append [simp]:
  "broadcastCalls (xs @ ys) = broadcastCalls xs @ broadcastCalls ys"
  by (induction xs rule: broadcastCalls.induct) auto

lemma txStateAfter_append [simp]:
  "txStateAfter s (xs @ ys) = txStateAfter (txStateAfter s xs) ys"
  by (induction s xs rule: txStateAfter.induct) auto

lemma broadcastCalls_signPsbt [simp]: "broadcastCalls (fst (signPsbt env h a)) = []"
  by (simp add: signPsbt_def split: sum.splits)

lemma txStateAfter_signPsbt [simp]: "txStateAfter s (fst (signPsbt env h a)) = s"
  by (simp add: signPsbt_def split: sum.splits)

subsection \<open>Classification has no unsupported outcome\<close>

text \<open>
  C3, as the code has it: network classification does not fail closed. An address that
  starts with \<open>tb1p\<close> is classified as the test network (testnet parameters for the
  builder, the signet endpoint for the gateway), and an address that starts with
  neither \<open>tb1p\<close> nor \<open>tb1q\<close>, whether or not it matches a supported prefix, is
  classified as mainnet (mainnet parameters, mainnet endpoint); it is not reported as
  unsupported. A sender that starts with neither \<open>bc1p\<close> nor \<open>tb1p\<close> is rejected by
  two guards that run before classification: \<open>buildPsbt\<close> throws "Sender must be a
  Taproot address" before it makes any call, and \<open>sendBitcoin\<close> throws before it has
  any effect, "Client not ready" when the signing client is not ready and "Only Taproot
  addresses are supported" otherwise.
\<close>

theorem classification_defaults_and_guards:
  "(startsWith a ''tb1p''
      \<longrightarrow> getNetwork a = networks_testnet \<and> getApiForAddress a = signetApi)
   \<and> (\<not> startsWith a ''tb1p'' \<and> \<not> startsWith a ''tb1q''
      \<longrightarrow> getNetwork a = networks_bitcoin \<and> getApiForAddress a = mainnetApi)
   \<and> (\<not> isTaprootAddress a
      \<longrightarrow> buildPsbt lib (params\<lparr>senderAddress := a\<rparr>) = ([], Inl SenderMustBeTaproot)
        \<and> sendBitcoin env (sp\<lparr>fromAddress := a\<rparr>)
            = ([], Inl (if isReady env then OnlyTaprootSupported else ClientNotReady)))"
  by (simp add: buildPsbt_def sendBitcoin_def isTestnetAddress_def getNetwork_def
      getApiForAddress_def)

theorem classification_defaults_and_guards_witness:
  "startsWith ''tb1psender'' ''tb1p''
   \<and> getNetwork ''tb1psender'' = networks_testnet
   \<and> getApiForAddress ''tb1psender'' = signetApi
   \<and> \<not> startsWith ''bc1psender'' ''tb1p'' \<and> \<not> startsWith ''bc1psender'' ''tb1q''
   \<and> getNetwork ''bc1psender'' = networks_bitcoin
   \<and> getApiForAddress ''bc1psender'' = mainnetApi
   \<and> \<not> isTaprootAddress ''1A1zP1eP5QGefi2DMPTfTL5SLmv7DivfNa''
   \<and> buildPsbt (toyLib True)
         \<lparr>BuildPsbtParams.utxos = [mkUtxo ''a'' 100000 True],
          senderAddress = ''1A1zP1eP5QGefi2DMPTfTL5SLmv7DivfNa'',
          recipientAddress = ''bc1precipient'', BuildPsbtParams.amount = 80000,
          BuildPsbtParams.feeRate = 5\<rparr> = ([], Inl SenderMustBeTaproot)
   \<and> sendBitcoin (toyEnv True) (toySend\<lparr>fromAddress := ''1A1zP1eP5QGefi2DMPTfTL5SLmv7DivfNa''\<rparr>)
       = ([], Inl OnlyTaprootSupported)
   \<and> sendBitcoin ((toyEnv True)\<lparr>isReady := False\<rparr>)
         (toySend\<lparr>fromAddress := ''1A1zP1eP5QGefi2DMPTfTL5SLmv7DivfNa''\<rparr>)
       = ([], Inl ClientNotReady)"
proof -
  let ?legacy = "''1A1zP1eP5QGefi2DMPTfTL5SLmv7DivfNa''"
  let ?params = "\<lparr>BuildPsbtParams.utxos = [mkUtxo ''a'' 100000 True],
        senderAddress = ''bc1psender'',
        recipientAddress = ''bc1precipient'', BuildPsbtParams.amount = 80000,
        BuildPsbtParams.feeRate = 5\<rparr>"
  have test: "startsWith ''tb1psender'' ''tb1p''"
    by (simp add: startsWith_def)
  have main: "\<not> startsWith ''bc1psender'' ''tb1p''" "\<not> startsWith ''bc1psender'' ''tb1q''"
    by (simp_all add: startsWith_def)
  have legacy: "\<not> isTaprootAddress ?legacy"
    by (simp add: isTaprootAddress_def startsWith_def)
  have ready: "isReady (toyEnv True)" "\<not> isReady ((toyEnv True)\<lparr>isReady := False\<rparr>)"
    by (simp_all add: toyEnv_def)
  from classification_defaults_and_guards[of "''tb1psender''" "toyLib True" ?params "toyEnv True"
      toySend] test
  have c1: "getNetwork ''tb1psender'' = networks_testnet"
    "getApiForAddress ''tb1psender'' = signetApi"
    by blast+
  from classification_defaults_and_guards[of "''bc1psender''" "toyLib True" ?params "toyEnv True"
      toySend] main
  have c2: "getNetwork ''bc1psender'' = networks_bitcoin"
    "getApiForAddress ''bc1psender'' = mainnetApi"
    by blast+
  from classification_defaults_and_guards[of ?legacy "toyLib True" ?params "toyEnv True" toySend]
    legacy ready(1)
  have c3: "buildPsbt (toyLib True) (?params\<lparr>senderAddress := ?legacy\<rparr>)
        = ([], Inl SenderMustBeTaproot)"
    "sendBitcoin (toyEnv True) (toySend\<lparr>fromAddress := ?legacy\<rparr>)
        = ([], Inl OnlyTaprootSupported)"
    by simp_all
  from classification_defaults_and_guards[of ?legacy "toyLib True" ?params
      "(toyEnv True)\<lparr>isReady := False\<rparr>" toySend] legacy ready(2)
  have c4: "sendBitcoin ((toyEnv True)\<lparr>isReady := False\<rparr>) (toySend\<lparr>fromAddress := ?legacy\<rparr>)
        = ([], Inl ClientNotReady)"
    by simp
  from test main legacy c1 c2 c3 c4 show ?thesis by simp
qed

text \<open>
  The classifier on a legacy address, which starts with neither supported prefix: it
  is not reported as unsupported, \<open>getNetwork\<close> and \<open>getApiForAddress\<close> answer mainnet.
\<close>

theorem classifier_defaults_to_mainnet:
  "\<not> startsWith ''1A1zP1eP5QGefi2DMPTfTL5SLmv7DivfNa'' ''bc1p''
   \<and> \<not> startsWith ''1A1zP1eP5QGefi2DMPTfTL5SLmv7DivfNa'' ''tb1p''
   \<and> getNetwork ''1A1zP1eP5QGefi2DMPTfTL5SLmv7DivfNa'' = networks_bitcoin
   \<and> getApiForAddress ''1A1zP1eP5QGefi2DMPTfTL5SLmv7DivfNa'' = mainnetApi"
  by (simp add: getNetwork_def getApiForAddress_def isTestnetAddress_def startsWith_def)

subsection \<open>Validation precedes selection\<close>

text \<open>
  C5, as the code has it: the address check of \<open>buildPsbt\<close> is the prefix test alone.
  For every build request whose amount is below the dust threshold \<open>546\<close> or whose
  sender starts with neither \<open>bc1p\<close> nor \<open>tb1p\<close>, \<open>buildPsbt\<close> throws before it has
  made any call: the network is not determined, the UTXO list is not read, coin
  selection is not run and no template is created; the outcome is the validation error
  whatever the UTXO list, the fee rate, the recipient and the library are. For every
  other request, whatever the length of the sender address, \<open>buildPsbt\<close> goes on to
  determine the network, read the UTXO list and run coin selection.
\<close>

theorem buildPsbt_rejects_before_selection:
  "(BuildPsbtParams.amount params < 546 \<or> \<not> isTaprootAddress (senderAddress params)
      \<longrightarrow> buildPsbt lib params
            = ([], Inl (if isTaprootAddress (senderAddress params) then AmountTooSmall
                        else SenderMustBeTaproot))
        \<and> buildPsbt lib' (params\<lparr>BuildPsbtParams.utxos := us, BuildPsbtParams.feeRate := fr,
                                   recipientAddress := rc\<rparr>)
            = buildPsbt lib params)
   \<and> (\<not> (BuildPsbtParams.amount params < 546 \<or> \<not> isTaprootAddress (senderAddress params))
      \<longrightarrow> take 3 (fst (buildPsbt lib params)) = [Call_getNetwork, Read_utxos, Call_selectUtxos])"
  by (auto simp: buildPsbt_def DUST_THRESHOLD_def Let_def split: sum.splits option.splits)

theorem buildPsbt_rejects_before_selection_witness:
  "BuildPsbtParams.amount
      \<lparr>BuildPsbtParams.utxos = [mkUtxo ''a'' 100000 True], senderAddress = ''bc1psender'',
       recipientAddress = ''bc1precipient'', BuildPsbtParams.amount = 500,
       BuildPsbtParams.feeRate = 5\<rparr> < 546
   \<and> buildPsbt (toyLib True)
        \<lparr>BuildPsbtParams.utxos = [mkUtxo ''a'' 100000 True], senderAddress = ''bc1psender'',
         recipientAddress = ''bc1precipient'', BuildPsbtParams.amount = 500,
         BuildPsbtParams.feeRate = 5\<rparr> = ([], Inl AmountTooSmall)
   \<and> buildPsbt (toyLib True)
        \<lparr>BuildPsbtParams.utxos = [mkUtxo ''a'' 100000 True], senderAddress = ''bc1qsender'',
         recipientAddress = ''bc1precipient'', BuildPsbtParams.amount = 80000,
         BuildPsbtParams.feeRate = 5\<rparr> = ([], Inl SenderMustBeTaproot)
   \<and> take 3 (fst (buildPsbt (toyLib True)
        \<lparr>BuildPsbtParams.utxos = [mkUtxo ''a'' 100000 True], senderAddress = ''bc1psender'',
         recipientAddress = ''bc1precipient'', BuildPsbtParams.amount = 80000,
         BuildPsbtParams.feeRate = 5\<rparr>)) = [Call_getNetwork, Read_utxos, Call_selectUtxos]"
proof -
  let ?small = "\<lparr>BuildPsbtParams.utxos = [mkUtxo ''a'' 100000 True], senderAddress = ''bc1psender'',
       recipientAddress = ''bc1precipient'', BuildPsbtParams.amount = 500,
       BuildPsbtParams.feeRate = 5\<rparr>"
  let ?segwit = "\<lparr>BuildPsbtParams.utxos = [mkUtxo ''a'' 100000 True], senderAddress = ''bc1qsender'',
       recipientAddress = ''bc1precipient'', BuildPsbtParams.amount = 80000,
       BuildPsbtParams.feeRate = 5\<rparr>"
  let ?good = "\<lparr>BuildPsbtParams.utxos = [mkUtxo ''a'' 100000 True], senderAddress = ''bc1psender'',
       recipientAddress = ''bc1precipient'', BuildPsbtParams.amount = 80000,
       BuildPsbtParams.feeRate = 5\<rparr>"
  have small: "BuildPsbtParams.amount ?small < 546" "isTaprootAddress (senderAddress ?small)"
    by (simp_all add: isTaprootAddress_def startsWith_def)
  have segwit: "\<not> isTaprootAddress (senderAddress ?segwit)"
    by (simp add: isTaprootAddress_def startsWith_def)
  have good: "\<not> (BuildPsbtParams.amount ?good < 546 \<or> \<not> isTaprootAddress (senderAddress ?good))"
    by (simp add: isTaprootAddress_def startsWith_def)
  from buildPsbt_rejects_before_selection[where params = ?small and lib = "toyLib True"
      and lib' = "toyLib False" and us = "[]" and fr = 1 and rc = "''tb1precipient''"] small
  have r1: "buildPsbt (toyLib True) ?small = ([], Inl AmountTooSmall)"
    by simp
  from buildPsbt_rejects_before_selection[where params = ?segwit and lib = "toyLib True"
      and lib' = "toyLib False" and us = "[]" and fr = 1 and rc = "''tb1precipient''"] segwit
  have r2: "buildPsbt (toyLib True) ?segwit = ([], Inl SenderMustBeTaproot)"
    by simp
  from buildPsbt_rejects_before_selection[where params = ?good and lib = "toyLib True"
      and lib' = "toyLib False" and us = "[]" and fr = 1 and rc = "''tb1precipient''"] good
  have r3: "take 3 (fst (buildPsbt (toyLib True) ?good))
      = [Call_getNetwork, Read_utxos, Call_selectUtxos]"
    by blast
  from small(1) r1 r2 r3 show ?thesis by (intro conjI)
qed

text \<open>
  A sender that has the \<open>bc1p\<close> prefix but not the length of a Taproot address is not
  a supported address (\<open>isValidBitcoinAddress\<close> refuses it), yet \<open>buildPsbt\<close> does not
  reject it before selection: the network is determined, the UTXO list read, coin
  selection run and a template created.
\<close>

theorem buildPsbt_selects_for_short_taproot_prefix:
  "\<not> isValidBitcoinAddress ''bc1p''
   \<and> fst (buildPsbt (toyLib True)
        \<lparr>BuildPsbtParams.utxos = [mkUtxo ''a'' 100000 True], senderAddress = ''bc1p'',
         recipientAddress = ''bc1precipient'', BuildPsbtParams.amount = 80000,
         BuildPsbtParams.feeRate = 5\<rparr>)
       = [Call_getNetwork, Read_utxos, Call_selectUtxos, New_Psbt]"
  by code_simp

subsection \<open>Broadcast comes after a successful finalize\<close>

text \<open>
  C6: in the send flow the gateway's broadcast is invoked only after \<open>finalizePsbt\<close>
  on the signed template has succeeded. In every run that reaches \<open>finalizePsbt\<close>
  (client ready, Taproot sender, template built and signed) and in which it fails,
  no broadcast call is made, the transaction state ends in \<open>error\<close> and the failure is
  rethrown; and in every run at all, a broadcast call, if there is one, is the only one
  and carries the raw transaction that \<open>finalizePsbt\<close> returned for the signer's
  output, sent to the endpoint of the sender's network.
\<close>

theorem sendBitcoin_broadcast_only_after_finalize:
  "(isReady env \<and> isTaprootAddress (fromAddress params)
      \<and> snd (buildPsbt (bitcoinjs env)
                 \<lparr>BuildPsbtParams.utxos = utxos params, senderAddress = fromAddress params,
                  recipientAddress = toAddress params, BuildPsbtParams.amount = amount params,
                  BuildPsbtParams.feeRate = feeRate params\<rparr>) = Inr built
      \<and> signTransaction env (psbtHex built) (fromAddress params) = Inr signed
      \<and> finalizePsbt (bitcoinjs env) signed = Inl e
      \<longrightarrow> broadcastCalls (fst (sendBitcoin env params)) = []
        \<and> step (txStateAfter s0 (fst (sendBitcoin env params))) = Error
        \<and> snd (sendBitcoin env params) = Inl e)
   \<and> (broadcastCalls (fst (sendBitcoin env params)) \<noteq> []
      \<longrightarrow> (\<exists>built' signed' raw.
             snd (buildPsbt (bitcoinjs env)
                 \<lparr>BuildPsbtParams.utxos = utxos params, senderAddress = fromAddress params,
                  recipientAddress = toAddress params, BuildPsbtParams.amount = amount params,
                  BuildPsbtParams.feeRate = feeRate params\<rparr>) = Inr built'
           \<and> signTransaction env (psbtHex built') (fromAddress params) = Inr signed'
           \<and> finalizePsbt (bitcoinjs env) signed' = Inr raw
           \<and> broadcastCalls (fst (sendBitcoin env params))
                 = [(getApiForAddress (fromAddress params), raw)]))"
proof (intro conjI impI)
  assume h: "isReady env \<and> isTaprootAddress (fromAddress params)
      \<and> snd (buildPsbt (bitcoinjs env)
                 \<lparr>BuildPsbtParams.utxos = utxos params, senderAddress = fromAddress params,
                  recipientAddress = toAddress params, BuildPsbtParams.amount = amount params,
                  BuildPsbtParams.feeRate = feeRate params\<rparr>) = Inr built
      \<and> signTransaction env (psbtHex built) (fromAddress params) = Inr signed
      \<and> finalizePsbt (bitcoinjs env) signed = Inl e"
  then have sign: "signPsbt env (psbtHex built) (fromAddress params)
      = ([SignTransaction (psbtHex built) (fromAddress params)], Inr signed)"
    by (simp add: signPsbt_def)
  have run: "sendBitcoin env params =
     ([SetTxState (txStateOf Building None None None),
       SetTxState (txStateOf Signing None (Some built) None),
       SignTransaction (psbtHex built) (fromAddress params),
       SetTxState (txStateOf Broadcasting None (Some built) None),
       caught e], Inl e)"
    using h sign by (simp add: sendBitcoin_def Let_def)
  show "broadcastCalls (fst (sendBitcoin env params)) = []"
    unfolding run by (simp add: caught_def)
  show "step (txStateAfter s0 (fst (sendBitcoin env params))) = Error"
    unfolding run by (simp add: caught_def txStateOf_def)
  show "snd (sendBitcoin env params) = Inl e"
    unfolding run by simp
next
  assume b: "broadcastCalls (fst (sendBitcoin env params)) \<noteq> []"
  then show "\<exists>built' signed' raw.
             snd (buildPsbt (bitcoinjs env)
                 \<lparr>BuildPsbtParams.utxos = utxos params, senderAddress = fromAddress params,
                  recipientAddress = toAddress params, BuildPsbtParams.amount = amount params,
                  BuildPsbtParams.feeRate = feeRate params\<rparr>) = Inr built'
           \<and> signTransaction env (psbtHex built') (fromAddress params) = Inr signed'
           \<and> finalizePsbt (bitcoinjs env) signed' = Inr raw
           \<and> broadcastCalls (fst (sendBitcoin env params))
                 = [(getApiForAddress (fromAddress params), raw)]"
    by (auto simp: sendBitcoin_def Let_def caught_def signPsbt_def
        split: if_splits sum.splits prod.splits)
qed

theorem sendBitcoin_broadcast_only_after_finalize_witness:
  "finalizePsbt (bitcoinjs (toyEnv False)) ''70736274ff01''
     = Inl (ThrownError ''Can not finalize input #0'')
   \<and> broadcastCalls (fst (sendBitcoin (toyEnv False) toySend)) = []
   \<and> step (txStateAfter (txStateOf Idle None None None) (fst (sendBitcoin (toyEnv False) toySend)))
       = Error
   \<and> snd (sendBitcoin (toyEnv False) toySend) = Inl (ThrownError ''Can not finalize input #0'')
   \<and> broadcastCalls (fst (sendBitcoin (toyEnv True) toySend)) = [(mainnetApi, ''0200000001'')]"
proof -
  let ?built = "\<lparr>psbtHex = ''70736274ff'', psbtBase64 = ''cHNidP8='', PsbtResult.fee = 770,
      PsbtResult.change = 19230, totalInput = 100000, inputCount = 1, outputCount = 2\<rparr>"
  have reach: "isReady (toyEnv False) \<and> isTaprootAddress (fromAddress toySend)
      \<and> snd (buildPsbt (bitcoinjs (toyEnv False))
                 \<lparr>BuildPsbtParams.utxos = utxos toySend, senderAddress = fromAddress toySend,
                  recipientAddress = toAddress toySend, BuildPsbtParams.amount = amount toySend,
                  BuildPsbtParams.feeRate = feeRate toySend\<rparr>) = Inr ?built
      \<and> signTransaction (toyEnv False) (psbtHex ?built) (fromAddress toySend) = Inr ''70736274ff01''
      \<and> finalizePsbt (bitcoinjs (toyEnv False)) ''70736274ff01''
            = Inl (ThrownError ''Can not finalize input #0'')"
    by code_simp
  have sent: "broadcastCalls (fst (sendBitcoin (toyEnv True) toySend)) = [(mainnetApi, ''0200000001'')]"
    by code_simp
  from sendBitcoin_broadcast_only_after_finalize[of "toyEnv False" toySend ?built
      "''70736274ff01''" "ThrownError ''Can not finalize input #0''" "txStateOf Idle None None None"]
    reach sent
  show ?thesis by blast
qed

subsection \<open>The fee preview\<close>

text \<open>
  C7, as the code has it: \<open>estimateFee\<close> returns \<open>{fee, change}\<close> of the selection on a
  successful selection and \<open>null\<close> exactly when the selector reports insufficient funds,
  and for a Taproot sender it never throws; for a sender that is not a Taproot address
  it does not return \<open>null\<close>: the selector's error "Only Taproot addresses are
  supported" leaves \<open>estimateFee\<close> uncaught.
\<close>

theorem estimateFee_outcomes:
  "(\<not> isTaprootAddress sender \<longrightarrow>
        estimateFee us sender recipient target rate = Inl OnlyTaprootSupported)
   \<and> (isTaprootAddress sender \<longrightarrow>
        (\<exists>r. estimateFee us sender recipient target rate = Inr r)
      \<and> (estimateFee us sender recipient target rate = Inr None
           \<longleftrightarrow> selectUtxos (filter (\<lambda>u. confirmed (status u)) us) target rate sender recipient
                 = Inr None)
      \<and> (\<forall>est. estimateFee us sender recipient target rate = Inr (Some est)
           \<longrightarrow> (\<exists>sel. selectUtxos (filter (\<lambda>u. confirmed (status u)) us) target rate sender recipient
                        = Inr (Some sel)
                    \<and> FeeEstimate.fee est = CoinSelectionResult.fee sel
                    \<and> FeeEstimate.change est = CoinSelectionResult.change sel)))"
  by (auto simp: estimateFee_def selectUtxos_def split: option.splits)

theorem estimateFee_outcomes_witness:
  "isTaprootAddress ''bc1psender''
   \<and> estimateFee [mkUtxo ''a'' 50000 True, mkUtxo ''b'' 100000 False] ''bc1psender'' ''bc1precipient''
        80000 5 = Inr None
   \<and> estimateFee [mkUtxo ''a'' 50000 True, mkUtxo ''b'' 100000 True] ''bc1psender'' ''bc1precipient''
        80000 5 = Inr (Some \<lparr>FeeEstimate.fee = 770, FeeEstimate.change = 19230\<rparr>)
   \<and> \<not> isTaprootAddress ''bc1qsender''"
proof -
  have taproot: "isTaprootAddress ''bc1psender''" "\<not> isTaprootAddress ''bc1qsender''"
    by (simp_all add: isTaprootAddress_def startsWith_def)
  have none: "selectUtxos (filter (\<lambda>u. confirmed (status u))
                  [mkUtxo ''a'' 50000 True, mkUtxo ''b'' 100000 False])
                80000 5 ''bc1psender'' ''bc1precipient'' = Inr None"
    by code_simp
  have some: "estimateFee [mkUtxo ''a'' 50000 True, mkUtxo ''b'' 100000 True] ''bc1psender''
        ''bc1precipient'' 80000 5 = Inr (Some \<lparr>FeeEstimate.fee = 770, FeeEstimate.change = 19230\<rparr>)"
    by code_simp
  from estimateFee_outcomes[of "''bc1psender''"
      "[mkUtxo ''a'' 50000 True, mkUtxo ''b'' 100000 False]" "''bc1precipient''" 80000 5]
    taproot none some
  show ?thesis by simp
qed

text \<open>
  The fee preview for a sender that is not a Taproot address: the outcome is the thrown
  error, not \<open>null\<close>.
\<close>

theorem estimateFee_throws_for_non_taproot_sender:
  "estimateFee [mkUtxo ''a'' 100000 True] ''bc1qsender'' ''bc1precipient'' 80000 5
     = Inl OnlyTaprootSupported
   \<and> estimateFee [mkUtxo ''a'' 100000 True] ''bc1qsender'' ''bc1precipient'' 80000 5 \<noteq> Inr None"
  by (simp add: estimateFee_def selectUtxos_def isTaprootAddress_def startsWith_def)

end
